theory Spec2Isabelle
  imports Complex_Main "HOL-Library.Char_ord" "HOL-Library.List_Lexorder"
begin

section \<open>JavaScript values used by the client code\<close>

text \<open>
  A JavaScript string is modelled as a \<^typ>\<open>string\<close>; a \<^typ>\<open>char\<close> stands for
  one code unit below 256.  The order on strings is the lexicographic order on code
  units, which is the order the default comparator of \<^verbatim>\<open>Array.prototype.sort\<close> uses.
\<close>

definition is_white_space :: "char \<Rightarrow> bool" where
  "is_white_space c = (of_char c \<in> {9, 10, 11, 12, 13, 32, 160 :: nat})"

definition trimStart :: "string \<Rightarrow> string" where
  "trimStart s = dropWhile is_white_space s"

definition trim :: "string \<Rightarrow> string" where
  "trim s = rev (dropWhile is_white_space (rev (dropWhile is_white_space s)))"

text \<open>
  \<^verbatim>\<open>parseInt(string)\<close> with no radix argument: leading white space is skipped, a
  sign is read, a \<^verbatim>\<open>0x\<close> prefix selects radix 16, and the longest run of digits is
  converted; no digit at all gives \<^verbatim>\<open>NaN\<close>, which is \<^const>\<open>None\<close> here.  Both zeros
  are \<open>0\<close>.  The result is exact as long as it is below \<open>2^53\<close> in magnitude, which
  covers every value an \<^verbatim>\<open>INTEGER\<close> column accepts.  Beyond that JavaScript rounds to a
  double, and a numeral of 309 digits or more is an infinity, which is sent as
  \<^verbatim>\<open>null\<close>; such inputs are outside what the definition describes.
\<close>

definition digit_value :: "char \<Rightarrow> nat option" where
  "digit_value c =
     (let n = (of_char c :: nat) in
      if 48 \<le> n \<and> n \<le> 57 then Some (n - 48)
      else if 97 \<le> n \<and> n \<le> 122 then Some (n - 87)
      else if 65 \<le> n \<and> n \<le> 90 then Some (n - 55)
      else None)"

definition is_radix_digit :: "nat \<Rightarrow> char \<Rightarrow> bool" where
  "is_radix_digit R c = (case digit_value c of None \<Rightarrow> False | Some v \<Rightarrow> v < R)"

definition radix_value :: "nat \<Rightarrow> string \<Rightarrow> nat" where
  "radix_value R Z =
     foldl (\<lambda>a c. a * R + (case digit_value c of None \<Rightarrow> 0 | Some v \<Rightarrow> v)) 0 Z"

definition parseInt :: "string \<Rightarrow> int option" where
  "parseInt string =
     (let S = trimStart string;
          sign = (case S of c # _ \<Rightarrow> if c = CHR ''-'' then (-1::int) else 1 | [] \<Rightarrow> 1);
          S1 = (case S of c # cs \<Rightarrow> if c = CHR ''+'' \<or> c = CHR ''-'' then cs else S | [] \<Rightarrow> S);
          hex = (take 2 S1 = ''0x'' \<or> take 2 S1 = ''0X'');
          R = (if hex then 16 else 10);
          S2 = (if hex then drop 2 S1 else S1);
          Z = takeWhile (is_radix_digit R) S2
      in if Z = [] then None else Some (sign * int (radix_value R Z)))"

text \<open>\<^verbatim>\<open>x || 0\<close> for a number \<^verbatim>\<open>x\<close> that may be \<^verbatim>\<open>NaN\<close>, \<^verbatim>\<open>null\<close> or \<^verbatim>\<open>undefined\<close>.\<close>

definition or_zero :: "'a::zero option \<Rightarrow> 'a" where
  "or_zero x = (case x of None \<Rightarrow> 0 | Some n \<Rightarrow> n)"

section \<open>The database schema\<close>

text \<open>
  The two tables of the schema.  A \<^verbatim>\<open>UUID\<close> is a natural number and
  \<^verbatim>\<open>gen_random_uuid()\<close> is a counter of the database, so that a generated id is new.
  A \<^verbatim>\<open>DATE\<close> is a day number (days since 1970-01-01) and a timestamp is a number of
  milliseconds since then; the order of dates is the order of the numbers.  A nullable
  column is an \<^typ>\<open>'a option\<close>; \<^verbatim>\<open>times_worn\<close> is one (it has a default and no
  \<^verbatim>\<open>NOT NULL\<close>).  The columns the client sends on insert form the parent record; the row
  adds the columns the database fills in.  The column \<^verbatim>\<open>id\<close> is \<open>ci_id\<close> in
  \<^verbatim>\<open>clothing_items\<close> and \<open>wh_id\<close> in \<^verbatim>\<open>wear_history\<close>, whose other columns that share a
  name with one of \<^verbatim>\<open>clothing_items\<close> carry the prefix too; \<^verbatim>\<open>notes\<close> is \<open>notes_text\<close>.
  The purchase date is kept as the text that was sent.
\<close>

type_synonym uuid = nat
type_synonym date = int
type_synonym timestamptz = int

record clothingItemData =
  user_id :: uuid
  name :: string
  category :: string
  subcategory :: "string option"
  brand :: "string option"
  color :: "string option"
  pattern :: "string option"
  material :: "string option"
  purchase_date :: "string option"
  purchase_price :: "rat option"
  purchase_location :: "string option"
  second_hand :: bool
  dog_wear :: bool
  times_worn :: "int option"
  notes_text :: "string option"
  image_urls :: "string list option"

record clothing_items_row = clothingItemData +
  ci_id :: uuid
  last_worn_date :: "date option"
  created_at :: timestamptz
  updated_at :: timestamptz

record wear_history_entry =
  wh_user_id :: uuid
  clothing_item_id :: uuid
  date_worn :: "date option"

record wear_history_row = wear_history_entry +
  wh_id :: uuid
  wh_notes :: "string option"
  wh_created_at :: timestamptz

record db =
  clothing_items :: "clothing_items_row list"
  wear_history :: "wear_history_row list"
  gen_random_uuid :: uuid

datatype db_error =
  numeric_value_out_of_range
  | foreign_key_violation
  | insufficient_privilege

text \<open>\<^verbatim>\<open>INTEGER\<close> arithmetic: a result outside 32 bits is an error, not a wrap-around.\<close>

definition int4 :: "int \<Rightarrow> db_error + int" where
  "int4 n = (if - 2147483648 \<le> n \<and> n \<le> 2147483647 then Inr n
             else Inl numeric_value_out_of_range)"

section \<open>Row level security\<close>

text \<open>
  Both tables have row level security enabled, and every policy is
  \<^verbatim>\<open>auth.uid() = user_id\<close>: a statement of user \<open>uid\<close> reads, updates and deletes only
  rows of \<open>uid\<close>, and inserts only rows whose \<^verbatim>\<open>user_id\<close> is \<open>uid\<close>.  The trigger function
  is not \<^verbatim>\<open>SECURITY DEFINER\<close>, so the statements in its body run under the same policies.
  A foreign key check is not subject to the policies.
\<close>

definition policy_clothing_items :: "uuid \<Rightarrow> 'a clothingItemData_scheme \<Rightarrow> bool" where
  "policy_clothing_items uid r = (uid = user_id r)"

definition policy_wear_history :: "uuid \<Rightarrow> 'a wear_history_entry_scheme \<Rightarrow> bool" where
  "policy_wear_history uid r = (uid = wh_user_id r)"

section \<open>The trigger function \<^verbatim>\<open>update_clothing_item_stats\<close>\<close>

text \<open>\<^verbatim>\<open>UPDATE t SET ... WHERE P\<close>: every row that satisfies \<open>P\<close> is replaced, in place; an
  error in one row aborts the statement.\<close>

fun update_rows :: "('r \<Rightarrow> bool) \<Rightarrow> ('r \<Rightarrow> db_error + 'r) \<Rightarrow> 'r list \<Rightarrow> db_error + 'r list" where
  "update_rows P f [] = Inr []"
| "update_rows P f (r # rs) =
     (if P r then
        (case f r of
           Inl e \<Rightarrow> Inl e
         | Inr r' \<Rightarrow> (case update_rows P f rs of Inl e \<Rightarrow> Inl e | Inr rs' \<Rightarrow> Inr (r' # rs')))
      else (case update_rows P f rs of Inl e \<Rightarrow> Inl e | Inr rs' \<Rightarrow> Inr (r # rs')))"

text \<open>\<^verbatim>\<open>x + k\<close> on a nullable \<^verbatim>\<open>INTEGER\<close>: \<^verbatim>\<open>NULL\<close> stays \<^verbatim>\<open>NULL\<close>.\<close>

definition int4_plus :: "int option \<Rightarrow> int \<Rightarrow> db_error + int option" where
  "int4_plus x k =
     (case x of
        None \<Rightarrow> Inr None
      | Some n \<Rightarrow> (case int4 (n + k) of Inl e \<Rightarrow> Inl e | Inr m \<Rightarrow> Inr (Some m)))"

text \<open>\<^verbatim>\<open>GREATEST(x, 0)\<close>: PostgreSQL ignores a \<^verbatim>\<open>NULL\<close> argument.\<close>

definition sql_greatest :: "int option \<Rightarrow> int \<Rightarrow> int option" where
  "sql_greatest x k = (case x of None \<Rightarrow> Some k | Some n \<Rightarrow> Some (max n k))"

text \<open>\<^verbatim>\<open>SELECT MAX(date_worn) FROM wear_history WHERE clothing_item_id = i AND date_worn IS NOT NULL\<close>,
  as user \<open>uid\<close>; the maximum of no row is \<^verbatim>\<open>NULL\<close>.\<close>

definition sql_max :: "date list \<Rightarrow> date option" where
  "sql_max ds = (case ds of [] \<Rightarrow> None | d # ds' \<Rightarrow> Some (foldl max d ds'))"

definition dates_worn :: "uuid \<Rightarrow> uuid \<Rightarrow> wear_history_row list \<Rightarrow> date list" where
  "dates_worn uid i rows =
     List.map_filter
       (\<lambda>r. if policy_wear_history uid r \<and> clothing_item_id r = i then date_worn r else None) rows"

definition max_date_worn :: "uuid \<Rightarrow> uuid \<Rightarrow> wear_history_row list \<Rightarrow> date option" where
  "max_date_worn uid i rows = sql_max (dates_worn uid i rows)"

text \<open>The trigger fires \<^verbatim>\<open>AFTER INSERT OR DELETE ON wear_history FOR EACH ROW\<close>; \<^verbatim>\<open>TG_OP\<close> and
  the row (\<^verbatim>\<open>NEW\<close> or \<^verbatim>\<open>OLD\<close>) are the constructor and its argument.  \<open>now\<close> is \<^verbatim>\<open>NOW()\<close>,
  which the trigger \<^verbatim>\<open>update_clothing_items_updated_at\<close> writes to \<^verbatim>\<open>updated_at\<close> as well.\<close>

datatype tg = TG_INSERT wear_history_row | TG_DELETE wear_history_row

definition stats_after_insert ::
  "timestamptz \<Rightarrow> wear_history_row \<Rightarrow> clothing_items_row \<Rightarrow> db_error + clothing_items_row" where
  "stats_after_insert now NEW r =
     (case int4_plus (times_worn r) 1 of
        Inl e \<Rightarrow> Inl e
      | Inr tw \<Rightarrow>
          Inr (r\<lparr>times_worn := tw,
                 last_worn_date :=
                   (case date_worn NEW of Some dw \<Rightarrow> Some dw | None \<Rightarrow> last_worn_date r),
                 updated_at := now\<rparr>))"

definition stats_after_delete ::
  "uuid \<Rightarrow> timestamptz \<Rightarrow> wear_history_row list \<Rightarrow> wear_history_row \<Rightarrow> clothing_items_row
     \<Rightarrow> db_error + clothing_items_row" where
  "stats_after_delete uid now rows OLD r =
     (case int4_plus (times_worn r) (- 1) of
        Inl e \<Rightarrow> Inl e
      | Inr tw \<Rightarrow>
          Inr (r\<lparr>times_worn := sql_greatest tw 0,
                 last_worn_date := max_date_worn uid (clothing_item_id OLD) rows,
                 updated_at := now\<rparr>))"

definition update_clothing_item_stats :: "uuid \<Rightarrow> timestamptz \<Rightarrow> tg \<Rightarrow> db \<Rightarrow> db_error + db" where
  "update_clothing_item_stats uid now ev d =
     (case ev of
        TG_INSERT NEW \<Rightarrow>
          (case update_rows (\<lambda>r. policy_clothing_items uid r \<and> ci_id r = clothing_item_id NEW)
                  (stats_after_insert now NEW) (clothing_items d) of
             Inl e \<Rightarrow> Inl e
           | Inr rows \<Rightarrow> Inr (d\<lparr>clothing_items := rows\<rparr>))
      | TG_DELETE OLD \<Rightarrow>
          (case update_rows (\<lambda>r. policy_clothing_items uid r \<and> ci_id r = clothing_item_id OLD)
                  (stats_after_delete uid now (wear_history d) OLD) (clothing_items d) of
             Inl e \<Rightarrow> Inl e
           | Inr rows \<Rightarrow> Inr (d\<lparr>clothing_items := rows\<rparr>)))"

text \<open>The row triggers of one statement run after the statement has changed the table.\<close>

fun fire :: "uuid \<Rightarrow> timestamptz \<Rightarrow> tg list \<Rightarrow> db \<Rightarrow> db_error + db" where
  "fire uid now [] d = Inr d"
| "fire uid now (ev # evs) d =
     (case update_clothing_item_stats uid now ev d of
        Inl e \<Rightarrow> Inl e
      | Inr d' \<Rightarrow> fire uid now evs d')"

section \<open>Statements on the tables\<close>

text \<open>A statement either fails and leaves the database as it was (\<^const>\<open>Inl\<close>), or returns
  the new database.\<close>

fun new_wear_rows :: "timestamptz \<Rightarrow> uuid \<Rightarrow> wear_history_entry list \<Rightarrow> wear_history_row list" where
  "new_wear_rows now g [] = []"
| "new_wear_rows now g (e # es) =
     \<lparr>wh_user_id = wh_user_id e, clothing_item_id = clothing_item_id e,
      date_worn = date_worn e, wh_id = g, wh_notes = None, wh_created_at = now\<rparr>
     # new_wear_rows now (Suc g) es"

definition insert_wear_history ::
  "uuid \<Rightarrow> timestamptz \<Rightarrow> wear_history_entry list \<Rightarrow> db \<Rightarrow> db_error + db" where
  "insert_wear_history uid now entries d =
     (if \<not> list_all (policy_wear_history uid) entries then Inl insufficient_privilege
      else if \<not> list_all (\<lambda>e. list_ex (\<lambda>r. ci_id r = clothing_item_id e) (clothing_items d)) entries
      then Inl foreign_key_violation
      else
        (let rows = new_wear_rows now (gen_random_uuid d) entries
         in fire uid now (map TG_INSERT rows)
              (d\<lparr>wear_history := wear_history d @ rows,
                 gen_random_uuid := gen_random_uuid d + length entries\<rparr>)))"

definition delete_wear_history :: "uuid \<Rightarrow> timestamptz \<Rightarrow> uuid \<Rightarrow> db \<Rightarrow> db_error + db" where
  "delete_wear_history uid now i d =
     (let hit = (\<lambda>r. policy_wear_history uid r \<and> wh_id r = i)
      in fire uid now (map TG_DELETE (filter hit (wear_history d)))
           (d\<lparr>wear_history := filter (\<lambda>r. \<not> hit r) (wear_history d)\<rparr>))"

text \<open>The row an insert into \<^verbatim>\<open>clothing_items\<close> stores: the columns sent, the generated
  \<^verbatim>\<open>id\<close>, no \<^verbatim>\<open>last_worn_date\<close>, and \<^verbatim>\<open>NOW()\<close> in both timestamps.  The price is kept
  as it is sent; the column is \<^verbatim>\<open>DECIMAL(10,2)\<close> and the database rounds it to two
  decimals, which the row does not show.\<close>

definition new_clothing_items_row ::
  "timestamptz \<Rightarrow> uuid \<Rightarrow> clothingItemData \<Rightarrow> clothing_items_row" where
  "new_clothing_items_row now g v =
     \<lparr>user_id = user_id v, name = name v, category = category v,
      subcategory = subcategory v, brand = brand v, color = color v,
      pattern = pattern v, material = material v,
      purchase_date = purchase_date v, purchase_price = purchase_price v,
      purchase_location = purchase_location v, second_hand = second_hand v,
      dog_wear = dog_wear v, times_worn = times_worn v, notes_text = notes_text v,
      image_urls = image_urls v, ci_id = g,
      last_worn_date = None, created_at = now, updated_at = now\<rparr>"

definition insert_clothing_items ::
  "uuid \<Rightarrow> timestamptz \<Rightarrow> clothingItemData \<Rightarrow> db \<Rightarrow> db_error + clothing_items_row \<times> db" where
  "insert_clothing_items uid now v d =
     (if \<not> policy_clothing_items uid v then Inl insufficient_privilege
      else
        (case int4_plus (times_worn v) 0 of
           Inl e \<Rightarrow> Inl e
         | Inr tw \<Rightarrow>
             (let row = new_clothing_items_row now (gen_random_uuid d) v
              in Inr (row, d\<lparr>clothing_items := clothing_items d @ [row],
                            gen_random_uuid := Suc (gen_random_uuid d)\<rparr>))))"

text \<open>\<^verbatim>\<open>SELECT * FROM clothing_items WHERE id = i\<close>, first row.\<close>

definition get_item :: "db \<Rightarrow> uuid \<Rightarrow> clothing_items_row option" where
  "get_item d i = find (\<lambda>r. ci_id r = i) (clothing_items d)"

text \<open>
  Requests arrive one after the other, each under the identity of its user and at its
  own time.  A request the database rejects changes nothing, and the next one runs.
\<close>

datatype statement =
  INSERT_INTO_wear_history "wear_history_entry list"
  | DELETE_FROM_wear_history uuid

definition execute :: "uuid \<Rightarrow> timestamptz \<Rightarrow> statement \<Rightarrow> db \<Rightarrow> db_error + db" where
  "execute uid now st d =
     (case st of
        INSERT_INTO_wear_history entries \<Rightarrow> insert_wear_history uid now entries d
      | DELETE_FROM_wear_history i \<Rightarrow> delete_wear_history uid now i d)"

fun run :: "(uuid \<times> timestamptz \<times> statement) list \<Rightarrow> db \<Rightarrow> db" where
  "run [] d = d"
| "run ((uid, now, st) # reqs) d =
     run reqs (case execute uid now st d of Inl e \<Rightarrow> d | Inr d' \<Rightarrow> d')"

text \<open>
  Recording a wear is the request both \<^verbatim>\<open>handleAddWear\<close> functions send: one row for the
  item, under the user's own id, with the date worn (the seeding at item creation sends
  rows with no date).  \<open>recordWear_calls\<close> sends one such request per element of
  \<open>calls\<close>, in order, and stops at the first one that is rejected.
\<close>

definition recordWear :: "uuid \<Rightarrow> timestamptz \<Rightarrow> uuid \<Rightarrow> date option \<Rightarrow> db \<Rightarrow> db_error + db" where
  "recordWear uid now itemId dateWorn d =
     insert_wear_history uid now
       [\<lparr>wh_user_id = uid, clothing_item_id = itemId, date_worn = dateWorn\<rparr>] d"

fun recordWear_calls ::
  "uuid \<Rightarrow> uuid \<Rightarrow> (timestamptz \<times> date option) list \<Rightarrow> db \<Rightarrow> db_error + db" where
  "recordWear_calls uid itemId [] d = Inr d"
| "recordWear_calls uid itemId ((now, dateWorn) # calls) d =
     (case recordWear uid now itemId dateWorn d of
        Inl e \<Rightarrow> Inl e
      | Inr d' \<Rightarrow> recordWear_calls uid itemId calls d')"

text \<open>The date of the last call that carries one, or \<open>start\<close> when none does.\<close>

definition last_dated :: "date option \<Rightarrow> (timestamptz \<times> date option) list \<Rightarrow> date option" where
  "last_dated start calls =
     foldl (\<lambda>acc c. case snd c of Some dw \<Rightarrow> Some dw | None \<Rightarrow> acc) start calls"

text \<open>The primary key of \<^verbatim>\<open>clothing_items\<close>.\<close>

definition primary_key :: "db \<Rightarrow> bool" where
  "primary_key d = distinct (map ci_id (clothing_items d))"

text \<open>The counter of item \<open>i\<close> is a number and is not negative.\<close>

definition counter_nonneg :: "db \<Rightarrow> uuid \<Rightarrow> bool" where
  "counter_nonneg d i =
     (case get_item d i of
        None \<Rightarrow> False
      | Some r \<Rightarrow> (case times_worn r of None \<Rightarrow> False | Some m \<Rightarrow> 0 \<le> m))"

section \<open>Aggregation: the overview statistics and the cost per wear\<close>

text \<open>
  \<^verbatim>\<open>fetchStats\<close> folds the fetched rows.  The reducer of the most worn item starts from
  \<^verbatim>\<open>null\<close> and replaces the current item only by a strictly greater count;
  \<^verbatim>\<open>(item.times_worn || 0)\<close> is \<^const>\<open>or_zero\<close>.
\<close>

definition mostWorn_callback ::
  "clothing_items_row option \<Rightarrow> clothing_items_row \<Rightarrow> clothing_items_row option" where
  "mostWorn_callback mx item =
     (case mx of
        None \<Rightarrow> Some item
      | Some m \<Rightarrow>
          if or_zero (times_worn item) > or_zero (times_worn m) then Some item else Some m)"

definition reduce_mostWornItem :: "clothing_items_row list \<Rightarrow> clothing_items_row option" where
  "reduce_mostWornItem items = foldl mostWorn_callback None items"

record WardrobeStats =
  totalItems :: nat
  totalTimesWorn :: int
  totalValue :: rat
  categoryCounts :: "string \<rightharpoonup> nat"
  mostWornItem :: "(string \<times> int option) option"
  recentlyAdded :: nat

text \<open>\<open>thirtyDaysAgo\<close> is the instant the client computes with \<^verbatim>\<open>setDate(getDate() - 30)\<close>.\<close>

definition computeOverviewStats :: "clothing_items_row list \<Rightarrow> timestamptz \<Rightarrow> WardrobeStats" where
  "computeOverviewStats items thirtyDaysAgo =
     \<lparr>totalItems = length items,
      totalTimesWorn = foldl (\<lambda>sum item. sum + or_zero (times_worn item)) 0 items,
      totalValue = foldl (\<lambda>sum item. sum + or_zero (purchase_price item)) 0 items,
      categoryCounts =
        foldl (\<lambda>counts item. counts(category item \<mapsto> or_zero (counts (category item)) + 1))
          Map.empty items,
      mostWornItem =
        (case reduce_mostWornItem items of
           None \<Rightarrow> None
         | Some item \<Rightarrow> Some (name item, times_worn item)),
      recentlyAdded = length (filter (\<lambda>item. created_at item > thirtyDaysAgo) items)\<rparr>"

text \<open>
  \<^verbatim>\<open>ItemDetail\<close>: \<^verbatim>\<open>item.purchase_price && item.times_worn > 0 ? item.purchase_price / item.times_worn : null\<close>.
  A price is falsy when it is absent or \<open>0\<close>.  The quotient is computed on rationals;
  the client divides doubles.
\<close>

definition costPerWear :: "clothing_items_row \<Rightarrow> rat option" where
  "costPerWear item =
     (case purchase_price item of
        None \<Rightarrow> None
      | Some price \<Rightarrow>
          if price = 0 then None
          else (case times_worn item of
                  None \<Rightarrow> None
                | Some n \<Rightarrow> if 0 < n then Some (price / of_int n) else None))"

section \<open>Replies of the backend\<close>

text \<open>
  A request to the backend resolves to \<^verbatim>\<open>{ data, error }\<close> or its promise rejects
  (\<open>Throws\<close>).  Besides the errors of the database that the model describes, a request
  can fail for a reason it does not describe (the transport, the format of a column):
  that is its \<open>fault\<close>, which the environment chooses.
\<close>

datatype fault = NoFault | ErrorResponse | Rejected

datatype api_error = PostgresError db_error | FetchError

datatype 'a response = Response "'a option" "api_error option" | Throws

section \<open>The suggestion cache\<close>

text \<open>
  The module keeps two variables, \<^verbatim>\<open>suggestionsCache\<close> and \<^verbatim>\<open>lastCacheTime\<close>.  The
  functions take the module's state and return the new one.  \<open>query\<close> is the reply of
  the backend to \<^verbatim>\<open>select('brand, subcategory').eq('user_id', userId)\<close>; it is asked
  only when the cache is not served.  The object a call returns is the cached object
  itself; the model returns its value.
\<close>

record SuggestionsData =
  brands :: "string list"
  subcategories :: "string list"

record suggestions_module =
  suggestionsCache :: "SuggestionsData option"
  lastCacheTime :: int

definition CACHE_DURATION :: int where
  "CACHE_DURATION = 5 * 60 * 1000"

definition initial_module :: suggestions_module where
  "initial_module = \<lparr>suggestionsCache = None, lastCacheTime = 0\<rparr>"

text \<open>\<^verbatim>\<open>Array.from(new Set(xs))\<close>: the elements in the order of their first occurrence.\<close>

definition Array_from_Set :: "'a list \<Rightarrow> 'a list" where
  "Array_from_Set xs = foldl (\<lambda>acc x. if x \<in> set acc then acc else acc @ [x]) [] xs"

text \<open>\<^verbatim>\<open>.filter(v => Boolean(v && v.trim())).map(v => v.trim())\<close>, made unique and
  sorted.  The sort is that of the library: for a total order on values without
  distinct equal elements every sorting algorithm returns the same list.\<close>

definition unique_values :: "string option list \<Rightarrow> string list" where
  "unique_values vs =
     sort (Array_from_Set
       (map (\<lambda>v. trim (case v of None \<Rightarrow> [] | Some s \<Rightarrow> s))
          (filter (\<lambda>v. case v of None \<Rightarrow> False | Some s \<Rightarrow> s \<noteq> [] \<and> trim s \<noteq> []) vs)))"

definition fetch_suggestions ::
  "int \<Rightarrow> clothing_items_row list response \<Rightarrow> suggestions_module
     \<Rightarrow> SuggestionsData \<times> suggestions_module" where
  "fetch_suggestions now reply m =
     (case reply of
        Throws \<Rightarrow> (\<lparr>brands = [], subcategories = []\<rparr>, m)
      | Response dat err \<Rightarrow>
          (case err of
             Some e \<Rightarrow> (\<lparr>brands = [], subcategories = []\<rparr>, m)
           | None \<Rightarrow>
               if dat = None \<or> dat = Some [] then
                 (let emptySuggestions = \<lparr>brands = [], subcategories = []\<rparr>
                  in (emptySuggestions,
                      \<lparr>suggestionsCache = Some emptySuggestions, lastCacheTime = now\<rparr>))
               else
                 (let rows = (case dat of None \<Rightarrow> [] | Some rows \<Rightarrow> rows);
                      suggestions =
                        \<lparr>brands = unique_values (map brand rows),
                         subcategories = unique_values (map subcategory rows)\<rparr>
                  in (suggestions,
                      \<lparr>suggestionsCache = Some suggestions, lastCacheTime = now\<rparr>))))"

definition getSuggestions ::
  "(uuid \<Rightarrow> clothing_items_row list response) \<Rightarrow> uuid \<Rightarrow> bool \<Rightarrow> int \<Rightarrow> suggestions_module
     \<Rightarrow> SuggestionsData \<times> suggestions_module" where
  "getSuggestions query userId forceRefresh now m =
     (case suggestionsCache m of
        None \<Rightarrow> fetch_suggestions now (query userId) m
      | Some cached \<Rightarrow>
          if \<not> forceRefresh \<and> now - lastCacheTime m < CACHE_DURATION then (cached, m)
          else fetch_suggestions now (query userId) m)"

definition clearSuggestionsCache :: "suggestions_module \<Rightarrow> suggestions_module" where
  "clearSuggestionsCache m = \<lparr>suggestionsCache = None, lastCacheTime = 0\<rparr>"

datatype suggestion_type = BRAND | SUBCATEGORY

definition addToSuggestionsCache ::
  "suggestion_type \<Rightarrow> string \<Rightarrow> suggestions_module \<Rightarrow> suggestions_module" where
  "addToSuggestionsCache type val m =
     (case suggestionsCache m of
        None \<Rightarrow> m
      | Some cached \<Rightarrow>
          if trim val = [] then m
          else
            (let trimmedValue = trim val in
             if type = BRAND \<and> trimmedValue \<notin> set (brands cached)
             then m\<lparr>suggestionsCache :=
                     Some (cached\<lparr>brands := sort (brands cached @ [trimmedValue])\<rparr>)\<rparr>
             else if type = SUBCATEGORY \<and> trimmedValue \<notin> set (subcategories cached)
             then m\<lparr>suggestionsCache :=
                     Some (cached\<lparr>subcategories := sort (subcategories cached @ [trimmedValue])\<rparr>)\<rparr>
             else m))"

text \<open>No duplicates, and sorted in ascending order.\<close>

definition tidy :: "SuggestionsData \<Rightarrow> bool" where
  "tidy s = (sorted (brands s) \<and> distinct (brands s) \<and>
             sorted (subcategories s) \<and> distinct (subcategories s))"

definition cache_tidy :: "suggestions_module \<Rightarrow> bool" where
  "cache_tidy m = (case suggestionsCache m of None \<Rightarrow> True | Some s \<Rightarrow> tidy s)"

text \<open>Whether a call of \<^verbatim>\<open>getSuggestions\<close> asks the backend: the cache is absent or stale,
  or a refresh is forced.\<close>

definition asks_backend :: "bool \<Rightarrow> int \<Rightarrow> suggestions_module \<Rightarrow> bool" where
  "asks_backend forceRefresh now m =
     (forceRefresh \<or> suggestionsCache m = None \<or> \<not> now - lastCacheTime m < CACHE_DURATION)"

text \<open>The calls of the module's functions, each \<^verbatim>\<open>getSuggestions\<close> with the reply the
  backend would give it, and the state of the module after a sequence of them.\<close>

datatype module_call =
  GetSuggestions "clothing_items_row list response" uuid bool int
  | AddToSuggestionsCache suggestion_type string
  | ClearSuggestionsCache

fun module_after :: "module_call list \<Rightarrow> suggestions_module \<Rightarrow> suggestions_module" where
  "module_after [] m = m"
| "module_after (GetSuggestions reply userId forceRefresh now # cs) m =
     module_after cs (snd (getSuggestions (\<lambda>u. reply) userId forceRefresh now m))"
| "module_after (AddToSuggestionsCache type val # cs) m =
     module_after cs (addToSuggestionsCache type val m)"
| "module_after (ClearSuggestionsCache # cs) m = module_after cs (clearSuggestionsCache m)"

section \<open>Requests of the client\<close>

text \<open>
  \<^verbatim>\<open>supabase.from(table).insert(...)\<close> under the session of user \<open>uid\<close>, at the time
  \<open>now\<close> of the database.  The insert into \<^verbatim>\<open>clothing_items\<close> is followed by
  \<^verbatim>\<open>.select()\<close> and returns the new row; a list of wear entries is one statement.
\<close>

definition supabase_insert_clothing_items ::
  "fault \<Rightarrow> uuid \<Rightarrow> timestamptz \<Rightarrow> clothingItemData \<Rightarrow> db
     \<Rightarrow> clothing_items_row list response \<times> db" where
  "supabase_insert_clothing_items f uid now v d =
     (case f of
        Rejected \<Rightarrow> (Throws, d)
      | ErrorResponse \<Rightarrow> (Response None (Some FetchError), d)
      | NoFault \<Rightarrow>
          (case insert_clothing_items uid now v d of
             Inl e \<Rightarrow> (Response None (Some (PostgresError e)), d)
           | Inr (row, d') \<Rightarrow> (Response (Some [row]) None, d')))"

definition supabase_insert_wear_history ::
  "fault \<Rightarrow> uuid \<Rightarrow> timestamptz \<Rightarrow> wear_history_entry list \<Rightarrow> db \<Rightarrow> unit response \<times> db" where
  "supabase_insert_wear_history f uid now entries d =
     (case f of
        Rejected \<Rightarrow> (Throws, d)
      | ErrorResponse \<Rightarrow> (Response None (Some FetchError), d)
      | NoFault \<Rightarrow>
          (case insert_wear_history uid now entries d of
             Inl e \<Rightarrow> (Response None (Some (PostgresError e)), d)
           | Inr d' \<Rightarrow> (Response None None, d')))"

section \<open>QuickWearTracker: \<^verbatim>\<open>handleAddWear\<close>\<close>

text \<open>
  \<^verbatim>\<open>new Date().toISOString().split('T')[0]\<close> is the UTC day of the client's clock, which
  is read once for the request (\<open>t1\<close>) and once for the local copy (\<open>t2\<close>).  The
  function returns the alert it shows, if any, the local list of items and the
  database.
\<close>

definition toISODate :: "timestamptz \<Rightarrow> date" where
  "toISODate t = t div 86400000"

datatype alert = Alert string string

definition handleAddWear ::
  "uuid option \<Rightarrow> uuid option \<Rightarrow> fault \<Rightarrow> timestamptz \<Rightarrow> timestamptz \<Rightarrow> timestamptz
     \<Rightarrow> clothing_items_row \<Rightarrow> clothing_items_row list \<times> db
     \<Rightarrow> alert option \<times> clothing_items_row list \<times> db" where
  "handleAddWear user addingWearFor f now t1 t2 item st =
     (case st of (items, d) \<Rightarrow>
       (case user of
          None \<Rightarrow> (None, items, d)
        | Some uid \<Rightarrow>
            if addingWearFor = Some (ci_id item) then (None, items, d)
            else
              (case supabase_insert_wear_history f uid now
                      [\<lparr>wh_user_id = uid, clothing_item_id = ci_id item,
                        date_worn = Some (toISODate t1)\<rparr>] d of
                 (Throws, d') \<Rightarrow>
                   (Some (Alert ''Error'' ''Failed to add wear. Please try again.''), items, d')
               | (Response dat (Some e), d') \<Rightarrow>
                   (Some (Alert ''Error'' ''Failed to add wear. Please try again.''), items, d')
               | (Response dat None, d') \<Rightarrow>
                   (None,
                    map (\<lambda>i. if ci_id i = ci_id item
                              then i\<lparr>times_worn := Some (or_zero (times_worn i) + 1),
                                     last_worn_date := Some (toISODate t2)\<rparr>
                              else i) items,
                    d'))))"

section \<open>Image upload\<close>

text \<open>
  What \<^verbatim>\<open>uploadImage\<close> uses of its platform, as functions on the state \<open>'w\<close> of the world
  outside the program: the clock, the file system (\<^const>\<open>Inl\<close> is the message of a
  rejected read) and the object store (\<^const>\<open>Inl\<close> is the message of a rejected promise,
  \<open>Inr (Some msg)\<close> an error reply, \<open>Inr None\<close> success).  The file content is passed on
  as it is read.  The public URL is the URL of the project followed by the path of the
  object in the bucket; the library also percent-encodes the path, which the text of
  the URL here does not show.  An id is written as its decimal numeral.
\<close>

record ImageUploadResult =
  success :: bool
  url :: "string option"
  error :: "string option"

record 'w platform =
  Date_now :: "'w \<Rightarrow> timestamptz \<times> 'w"
  readAsStringAsync :: "string \<Rightarrow> 'w \<Rightarrow> (string + string) \<times> 'w"
  storage_upload :: "string \<Rightarrow> string \<Rightarrow> string \<Rightarrow> 'w \<Rightarrow> (string + string option) \<times> 'w"
  supabaseUrl :: string

fun digits :: "nat \<Rightarrow> string" where
  "digits n =
     (if n < 10 then [''0123456789'' ! n] else digits (n div 10) @ [''0123456789'' ! (n mod 10)])"

declare digits.simps [simp del]

definition String :: "int \<Rightarrow> string" where
  "String n = (if n < 0 then CHR ''-'' # digits (nat (- n)) else digits (nat n))"

definition getPublicUrl :: "'w platform \<Rightarrow> string \<Rightarrow> string" where
  "getPublicUrl P filePath =
     supabaseUrl P @ ''/storage/v1/object/public/clothing-images/'' @ filePath"

definition message_or :: "string \<Rightarrow> string \<Rightarrow> string" where
  "message_or msg dflt = (if msg = [] then dflt else msg)"

definition uploadImage ::
  "'w platform \<Rightarrow> string \<Rightarrow> uuid \<Rightarrow> string option \<Rightarrow> 'w \<Rightarrow> ImageUploadResult \<times> 'w" where
  "uploadImage P uri userId fileName w =
     (case Date_now P w of (timestamp, w1) \<Rightarrow>
       (let fileExtension = message_or (rev (takeWhile (\<lambda>c. c \<noteq> CHR ''.'') (rev uri))) ''jpg'';
            finalFileName =
              message_or (case fileName of None \<Rightarrow> [] | Some n \<Rightarrow> n)
                (''image_'' @ String timestamp @ ''.'' @ fileExtension);
            filePath = String (int userId) @ ''/'' @ finalFileName
        in case readAsStringAsync P uri w1 of
             (Inl msg, w2) \<Rightarrow>
               (\<lparr>success = False, url = None,
                 error = Some (message_or msg ''Failed to upload image'')\<rparr>, w2)
           | (Inr base64, w2) \<Rightarrow>
               (case storage_upload P filePath base64 (''image/'' @ fileExtension) w2 of
                  (Inl msg, w3) \<Rightarrow>
                    (\<lparr>success = False, url = None,
                      error = Some (message_or msg ''Failed to upload image'')\<rparr>, w3)
                | (Inr (Some msg), w3) \<Rightarrow>
                    (\<lparr>success = False, url = None, error = Some msg\<rparr>, w3)
                | (Inr None, w3) \<Rightarrow>
                    (\<lparr>success = True, url = Some (getPublicUrl P filePath), error = None\<rparr>,
                     w3))))"

fun upload_loop ::
  "'w platform \<Rightarrow> uuid \<Rightarrow> string list \<Rightarrow> ImageUploadResult list \<Rightarrow> 'w
     \<Rightarrow> ImageUploadResult list \<times> 'w" where
  "upload_loop P userId [] results w = (results, w)"
| "upload_loop P userId (uri # uris) results w =
     (case uploadImage P uri userId None w of
        (result, w') \<Rightarrow> upload_loop P userId uris (results @ [result]) w')"

definition uploadMultipleImages ::
  "'w platform \<Rightarrow> string list \<Rightarrow> uuid \<Rightarrow> 'w \<Rightarrow> ImageUploadResult list \<times> 'w" where
  "uploadMultipleImages P uris userId w = upload_loop P userId uris [] w"

section \<open>AddItem: \<^verbatim>\<open>handleSave\<close> and \<^verbatim>\<open>proceedWithSave\<close>\<close>

text \<open>
  The form holds every field as text.  \<^verbatim>\<open>s.trim() || null\<close> is \<open>or_null (trim s)\<close>.
  \<^verbatim>\<open>parseFloat\<close> is a parameter.  The state is the database, the module of the
  suggestion cache and the suggestions the component holds; \<open>faults\<close> and \<open>nows\<close> belong to
  the insert of the item and to the insert of the wear history.  Columns other than
  \<^verbatim>\<open>times_worn\<close> are stored as they are sent.
\<close>

record ClothingItem =
  item_name :: string
  item_category :: string
  item_subcategory :: string
  item_brand :: string
  item_color :: string
  item_pattern :: string
  item_material :: string
  item_purchase_date :: string
  item_purchase_price :: string
  item_purchase_location :: string
  item_second_hand :: bool
  item_dog_wear :: bool
  item_times_worn :: string
  item_notes :: string
  item_images :: "string list"

definition or_null :: "string \<Rightarrow> string option" where
  "or_null s = (if s = [] then None else Some s)"

definition prepare_clothingItemData ::
  "(string \<Rightarrow> rat option) \<Rightarrow> uuid \<Rightarrow> ClothingItem \<Rightarrow> string list \<Rightarrow> clothingItemData" where
  "prepare_clothingItemData parseFloat uid item imageUrls =
     \<lparr>user_id = uid,
      name = trim (item_name item),
      category = item_category item,
      subcategory = or_null (trim (item_subcategory item)),
      brand = or_null (trim (item_brand item)),
      color = or_null (trim (item_color item)),
      pattern = or_null (trim (item_pattern item)),
      material = or_null (trim (item_material item)),
      purchase_date = or_null (item_purchase_date item),
      purchase_price =
        (if item_purchase_price item \<noteq> [] then parseFloat (item_purchase_price item) else None),
      purchase_location = or_null (trim (item_purchase_location item)),
      second_hand = item_second_hand item,
      dog_wear = item_dog_wear item,
      times_worn = Some (or_zero (parseInt (item_times_worn item))),
      notes_text = or_null (trim (item_notes item)),
      image_urls = (if imageUrls \<noteq> [] then Some imageUrls else None)\<rparr>"

definition add_suggestions :: "ClothingItem \<Rightarrow> suggestions_module \<Rightarrow> suggestions_module" where
  "add_suggestions item m =
     (let m1 = (if trim (item_brand item) \<noteq> []
                then addToSuggestionsCache BRAND (trim (item_brand item)) m else m)
      in if trim (item_subcategory item) \<noteq> []
         then addToSuggestionsCache SUBCATEGORY (trim (item_subcategory item)) m1 else m1)"

definition setSuggestions :: "ClothingItem \<Rightarrow> SuggestionsData \<Rightarrow> SuggestionsData" where
  "setSuggestions item prev =
     \<lparr>brands =
        (if trim (item_brand item) \<noteq> [] \<and> trim (item_brand item) \<notin> set (brands prev)
         then sort (brands prev @ [trim (item_brand item)]) else brands prev),
      subcategories =
        (if trim (item_subcategory item) \<noteq> []
            \<and> trim (item_subcategory item) \<notin> set (subcategories prev)
         then sort (subcategories prev @ [trim (item_subcategory item)])
         else subcategories prev)\<rparr>"

type_synonym app_state = "db \<times> suggestions_module \<times> SuggestionsData"

definition failed_to_add :: alert where
  "failed_to_add = Alert ''Error'' ''Failed to add item. Please try again.''"

definition proceedWithSave ::
  "(string \<Rightarrow> rat option) \<Rightarrow> fault \<times> fault \<Rightarrow> timestamptz \<times> timestamptz \<Rightarrow> uuid \<Rightarrow> ClothingItem
     \<Rightarrow> string list \<Rightarrow> app_state \<Rightarrow> alert \<times> app_state" where
  "proceedWithSave parseFloat faults nows uid item imageUrls st =
     (case st of (d, m, suggestions) \<Rightarrow>
       (let clothingItemData = prepare_clothingItemData parseFloat uid item imageUrls
        in case supabase_insert_clothing_items (fst faults) uid (fst nows) clothingItemData d of
             (Throws, d1) \<Rightarrow> (failed_to_add, d1, m, suggestions)
           | (Response dat (Some e), d1) \<Rightarrow> (failed_to_add, d1, m, suggestions)
           | (Response dat None, d1) \<Rightarrow>
               (let timesWorn = or_zero (parseInt (item_times_worn item));
                    seeded =
                      (case dat of
                         Some (row # rows) \<Rightarrow>
                           if timesWorn > 0 then
                             supabase_insert_wear_history (snd faults) uid (snd nows)
                               (replicate (nat timesWorn)
                                  \<lparr>wh_user_id = uid, clothing_item_id = ci_id row,
                                   date_worn = None\<rparr>) d1
                           else (Response None None, d1)
                       | _ \<Rightarrow> (Response None None, d1))
                in case seeded of
                     (Throws, d2) \<Rightarrow> (failed_to_add, d2, m, suggestions)
                   | (Response x wearError, d2) \<Rightarrow>
                       (Alert ''Success'' ''Item added successfully!'',
                        d2, add_suggestions item m, setSuggestions item suggestions))))"

definition successful_urls :: "ImageUploadResult list \<Rightarrow> string list" where
  "successful_urls uploadResults =
     map (\<lambda>result. case url result of None \<Rightarrow> [] | Some u \<Rightarrow> u)
       (filter (\<lambda>result. success result \<and> url result \<noteq> None \<and> url result \<noteq> Some [])
          uploadResults)"

text \<open>
  \<^verbatim>\<open>handleSave\<close> ends with an alert, or with the alert \<^verbatim>\<open>Upload Error\<close> that offers
  \<^verbatim>\<open>Cancel\<close> and \<^verbatim>\<open>Continue\<close>: \<open>Upload_Error n uploadResults\<close>, where \<open>n\<close> is the number of
  failed uploads in its message and \<open>uploadResults\<close> is what the handler of
  \<^verbatim>\<open>Continue\<close> holds.  \<^verbatim>\<open>Cancel\<close> has no handler.
\<close>

datatype outcome =
  Alerted alert
  | Upload_Error nat "ImageUploadResult list"


definition handleSave ::
  "'w platform \<Rightarrow> (string \<Rightarrow> rat option) \<Rightarrow> fault \<times> fault \<Rightarrow> timestamptz \<times> timestamptz
     \<Rightarrow> uuid option \<Rightarrow> ClothingItem \<Rightarrow> 'w \<Rightarrow> app_state \<Rightarrow> outcome \<times> 'w \<times> app_state" where
  "handleSave P parseFloat faults nows user item w st =
     (if trim (item_name item) = [] then
        (Alerted (Alert ''Error'' ''Please enter an item name''), w, st)
      else if item_category item = [] then
        (Alerted (Alert ''Error'' ''Please select a category''), w, st)
      else
        (case user of
           None \<Rightarrow> (Alerted (Alert ''Error'' ''Please sign in to add items''), w, st)
         | Some uid \<Rightarrow>
             if item_images item \<noteq> [] then
               (case uploadMultipleImages P (item_images item) uid w of
                  (uploadResults, w') \<Rightarrow>
                    (let failedUploads = filter (\<lambda>result. \<not> success result) uploadResults
                     in if failedUploads \<noteq> [] then
                          (Upload_Error (length failedUploads) uploadResults, w', st)
                        else
                          (case proceedWithSave parseFloat faults nows uid item
                                  (successful_urls uploadResults) st of
                             (a, st') \<Rightarrow> (Alerted a, w', st'))))
             else
               (case proceedWithSave parseFloat faults nows uid item [] st of
                  (a, st') \<Rightarrow> (Alerted a, w, st'))))"

section \<open>Example data\<close>

definition example_item :: clothing_items_row where
  "example_item =
     \<lparr>user_id = 7, name = ''Shirt'', category = ''tops'', subcategory = None,
      brand = None, color = None, pattern = None, material = None,
      purchase_date = None, purchase_price = None, purchase_location = None,
      second_hand = False, dog_wear = False, times_worn = Some 0, notes_text = None,
      image_urls = None, ci_id = 1, last_worn_date = None, created_at = 0,
      updated_at = 0\<rparr>"

definition example_wardrobe :: "clothing_items_row list" where
  "example_wardrobe =
     [example_item\<lparr>ci_id := 3, name := ''Coat'', times_worn := Some 2\<rparr>,
      example_item\<lparr>ci_id := 2, name := ''Jeans'', times_worn := Some 5\<rparr>,
      example_item\<lparr>ci_id := 1, name := ''Shirt'', times_worn := Some 5\<rparr>]"

text \<open>One item of user 7 and no wear event; 19723 is 2024-01-01 and 19797 is 2024-03-15.\<close>

definition example_db :: db where
  "example_db = \<lparr>clothing_items = [example_item], wear_history = [], gen_random_uuid = 2\<rparr>"

definition worn_on :: "date \<Rightarrow> statement" where
  "worn_on dw =
     INSERT_INTO_wear_history [\<lparr>wh_user_id = 7, clothing_item_id = 1, date_worn = Some dw\<rparr>]"

definition example_wear :: wear_history_row where
  "example_wear =
     \<lparr>wh_user_id = 7, clothing_item_id = 1, date_worn = Some 19797, wh_id = 2,
      wh_notes = None, wh_created_at = 100\<rparr>"

definition example_rows :: "clothing_items_row list" where
  "example_rows =
     [example_item\<lparr>brand := Some '' Nike '', subcategory := Some ''tee''\<rparr>,
      example_item\<lparr>brand := Some ''Adidas'', subcategory := None\<rparr>,
      example_item\<lparr>brand := Some ''Nike'', subcategory := Some ''  ''\<rparr>]"

definition example_calls :: "module_call list" where
  "example_calls =
     [AddToSuggestionsCache BRAND ''Zara'',
      GetSuggestions (Response (Some example_rows) None) 7 False 1000,
      AddToSuggestionsCache BRAND '' Boss'']"

text \<open>A \<^verbatim>\<open>parseFloat\<close> for forms that leave the price empty, where it is not called.\<close>

definition parseFloat_NaN :: "string \<Rightarrow> rat option" where
  "parseFloat_NaN s = None"

definition example_form :: ClothingItem where
  "example_form =
     \<lparr>item_name = ''Shirt'', item_category = ''tops'', item_subcategory = [],
      item_brand = [], item_color = [], item_pattern = [], item_material = [],
      item_purchase_date = [], item_purchase_price = [], item_purchase_location = [],
      item_second_hand = False, item_dog_wear = False, item_times_worn = ''0'',
      item_notes = [], item_images = []\<rparr>"

definition empty_db :: db where
  "empty_db = \<lparr>clothing_items = [], wear_history = [], gen_random_uuid = 1\<rparr>"

definition empty_state :: app_state where
  "empty_state = (empty_db, initial_module, \<lparr>brands = [], subcategories = []\<rparr>)"

text \<open>A platform whose world is the list of the paths stored so far: the clock advances
  with every stored object, the file \<^verbatim>\<open>b.png\<close> cannot be read, and the store accepts
  every object.\<close>

definition example_platform :: "string list platform" where
  "example_platform =
     \<lparr>Date_now = (\<lambda>w. (1000 + int (length w), w)),
      readAsStringAsync = (\<lambda>uri w. (if uri = ''b.png'' then Inl ''unreadable'' else Inr ''QUJD'', w)),
      storage_upload = (\<lambda>filePath content contentType w. (Inr None, w @ [filePath])),
      supabaseUrl = ''https://x.supabase.co''\<rparr>"


section \<open>The trigger and the statements\<close>

lemma update_rows_keys:
  "update_rows P f rs = Inr rs' \<Longrightarrow> (\<And>r r'. f r = Inr r' \<Longrightarrow> key r' = key r)
    \<Longrightarrow> map key rs' = map key rs"
proof (induction rs arbitrary: rs')
  case Nil
  then show ?case by simp
next
  case (Cons r rs)
  then show ?case
    by (auto split: if_splits sum.splits)
qed

lemma update_rows_find:
  "update_rows P f rs = Inr rs' \<Longrightarrow> (\<And>r r'. f r = Inr r' \<Longrightarrow> key r' = key r)
    \<Longrightarrow> find (\<lambda>r. key r = k) rs' =
        (case find (\<lambda>r. key r = k) rs of
           None \<Rightarrow> None
         | Some r \<Rightarrow> if P r then (case f r of Inl e \<Rightarrow> None | Inr r' \<Rightarrow> Some r') else Some r)"
proof (induction rs arbitrary: rs')
  case Nil
  then show ?case by simp
next
  case (Cons r rs)
  show ?case
  proof (cases "P r")
    case True
    with Cons.prems(1) obtain r' rs'' where f: "f r = Inr r'"
      and u: "update_rows P f rs = Inr rs''" and eq: "rs' = r' # rs''"
      by (auto split: sum.splits)
    have k: "key r' = key r" using Cons.prems(2) f by blast
    show ?thesis
      using Cons.IH [OF u Cons.prems(2)] True f k by (simp add: eq)
  next
    case False
    with Cons.prems(1) obtain rs'' where
      u: "update_rows P f rs = Inr rs''" and eq: "rs' = r # rs''"
      by (auto split: sum.splits)
    show ?thesis
      using Cons.IH [OF u Cons.prems(2)] False by (simp add: eq)
  qed
qed

lemma update_rows_total:
  "(\<And>r. r \<in> set rs \<Longrightarrow> P r \<Longrightarrow> \<exists>r'. f r = Inr r') \<Longrightarrow> \<exists>rs'. update_rows P f rs = Inr rs'"
proof (induction rs)
  case Nil
  then show ?case by simp
next
  case (Cons r rs)
  then obtain rs' where u: "update_rows P f rs = Inr rs'" by auto
  show ?case
  proof (cases "P r")
    case True
    then obtain r' where "f r = Inr r'" using Cons.prems by auto
    with u True show ?thesis by simp
  next
    case False
    with u show ?thesis by simp
  qed
qed

lemma find_distinct_key:
  "distinct (map key rs) \<Longrightarrow> find (\<lambda>r. key r = k) rs = Some r \<Longrightarrow> x \<in> set rs \<Longrightarrow> key x = k
    \<Longrightarrow> x = r"
proof (induction rs)
  case Nil
  then show ?case by simp
next
  case (Cons a rs)
  then show ?case
    by (auto split: if_splits dest: find_Some_iff[THEN iffD1])
qed

lemma stats_after_insert_id: "stats_after_insert now NEW r = Inr r' \<Longrightarrow> ci_id r' = ci_id r"
  by (auto simp: stats_after_insert_def split: sum.splits)

lemma stats_after_delete_id:
  "stats_after_delete uid now rows OLD r = Inr r' \<Longrightarrow> ci_id r' = ci_id r"
  by (auto simp: stats_after_delete_def split: sum.splits)

lemma trigger_frame:
  "update_clothing_item_stats uid now ev d = Inr d' \<Longrightarrow>
     wear_history d' = wear_history d \<and> gen_random_uuid d' = gen_random_uuid d \<and>
     map ci_id (clothing_items d') = map ci_id (clothing_items d)"
  by (cases ev)
    (auto simp: update_clothing_item_stats_def split: sum.splits
      dest: update_rows_keys [where key = ci_id, OF _ stats_after_insert_id]
            update_rows_keys [where key = ci_id, OF _ stats_after_delete_id])

lemma get_item_after_insert_trigger:
  "update_clothing_item_stats uid now (TG_INSERT NEW) d = Inr d' \<Longrightarrow>
     get_item d' i =
       (case get_item d i of
          None \<Rightarrow> None
        | Some r \<Rightarrow>
            if uid = user_id r \<and> i = clothing_item_id NEW
            then (case stats_after_insert now NEW r of Inl e \<Rightarrow> None | Inr r' \<Rightarrow> Some r')
            else Some r)"
proof -
  assume a: "update_clothing_item_stats uid now (TG_INSERT NEW) d = Inr d'"
  then obtain rows where u: "update_rows
      (\<lambda>r. policy_clothing_items uid r \<and> ci_id r = clothing_item_id NEW)
      (stats_after_insert now NEW) (clothing_items d) = Inr rows"
    and d': "d' = d\<lparr>clothing_items := rows\<rparr>"
    by (auto simp: update_clothing_item_stats_def split: sum.splits)
  have "find (\<lambda>r. ci_id r = i) rows =
      (case find (\<lambda>r. ci_id r = i) (clothing_items d) of
         None \<Rightarrow> None
       | Some r \<Rightarrow>
           if policy_clothing_items uid r \<and> ci_id r = clothing_item_id NEW
           then (case stats_after_insert now NEW r of Inl e \<Rightarrow> None | Inr r' \<Rightarrow> Some r')
           else Some r)"
    by (rule update_rows_find [OF u]) (rule stats_after_insert_id)
  then show ?thesis
    by (auto simp: get_item_def d' policy_clothing_items_def split: option.splits
        dest: find_Some_iff [THEN iffD1])
qed

lemma get_item_after_delete_trigger:
  "update_clothing_item_stats uid now (TG_DELETE OLD) d = Inr d' \<Longrightarrow>
     get_item d' i =
       (case get_item d i of
          None \<Rightarrow> None
        | Some r \<Rightarrow>
            if uid = user_id r \<and> i = clothing_item_id OLD
            then (case stats_after_delete uid now (wear_history d) OLD r of
                    Inl e \<Rightarrow> None | Inr r' \<Rightarrow> Some r')
            else Some r)"
proof -
  assume a: "update_clothing_item_stats uid now (TG_DELETE OLD) d = Inr d'"
  then obtain rows where u: "update_rows
      (\<lambda>r. policy_clothing_items uid r \<and> ci_id r = clothing_item_id OLD)
      (stats_after_delete uid now (wear_history d) OLD) (clothing_items d) = Inr rows"
    and d': "d' = d\<lparr>clothing_items := rows\<rparr>"
    by (auto simp: update_clothing_item_stats_def split: sum.splits)
  have "find (\<lambda>r. ci_id r = i) rows =
      (case find (\<lambda>r. ci_id r = i) (clothing_items d) of
         None \<Rightarrow> None
       | Some r \<Rightarrow>
           if policy_clothing_items uid r \<and> ci_id r = clothing_item_id OLD
           then (case stats_after_delete uid now (wear_history d) OLD r of
                   Inl e \<Rightarrow> None | Inr r' \<Rightarrow> Some r')
           else Some r)"
    by (rule update_rows_find [OF u]) (rule stats_after_delete_id)
  then show ?thesis
    by (auto simp: get_item_def d' policy_clothing_items_def split: option.splits
        dest: find_Some_iff [THEN iffD1])
qed

lemma update_rows_success:
  "update_rows P f rs = Inr rs' \<Longrightarrow> r \<in> set rs \<Longrightarrow> P r \<Longrightarrow> \<exists>r'. f r = Inr r'"
proof (induction rs arbitrary: rs')
  case Nil
  then show ?case by simp
next
  case (Cons a rs)
  then show ?case
    by (auto split: if_splits sum.splits)
qed

lemma get_item_in_set: "get_item d i = Some r \<Longrightarrow> r \<in> set (clothing_items d) \<and> ci_id r = i"
  by (auto simp: get_item_def find_Some_iff)

lemma trigger_success:
  assumes "update_clothing_item_stats uid now ev d = Inr d'"
    and "get_item d i = Some r" and "uid = user_id r"
  shows "ev = TG_INSERT NEW \<Longrightarrow> i = clothing_item_id NEW \<Longrightarrow> \<exists>r'. stats_after_insert now NEW r = Inr r'"
    and "ev = TG_DELETE OLD \<Longrightarrow> i = clothing_item_id OLD
      \<Longrightarrow> \<exists>r'. stats_after_delete uid now (wear_history d) OLD r = Inr r'"
proof -
  have r: "r \<in> set (clothing_items d)" "ci_id r = i"
    using get_item_in_set [OF assms(2)] by auto
  show "ev = TG_INSERT NEW \<Longrightarrow> i = clothing_item_id NEW \<Longrightarrow> \<exists>r'. stats_after_insert now NEW r = Inr r'"
    using assms(1,3) r
    by (auto simp: update_clothing_item_stats_def policy_clothing_items_def split: sum.splits
        dest!: update_rows_success [where r = r])
  show "ev = TG_DELETE OLD \<Longrightarrow> i = clothing_item_id OLD
      \<Longrightarrow> \<exists>r'. stats_after_delete uid now (wear_history d) OLD r = Inr r'"
    using assms(1,3) r
    by (auto simp: update_clothing_item_stats_def policy_clothing_items_def split: sum.splits
        dest!: update_rows_success [where r = r])
qed

lemma counter_nonneg_iff:
  "counter_nonneg d i \<longleftrightarrow> (\<exists>r m. get_item d i = Some r \<and> times_worn r = Some m \<and> 0 \<le> m)"
  by (auto simp: counter_nonneg_def split: option.splits)

lemma trigger_nonneg:
  assumes t: "update_clothing_item_stats uid now ev d = Inr d'" and c: "counter_nonneg d i"
  shows "counter_nonneg d' i"
proof -
  from c obtain r m where g: "get_item d i = Some r" and tw: "times_worn r = Some m" and m: "0 \<le> m"
    by (auto simp: counter_nonneg_iff)
  show ?thesis
  proof (cases ev)
    case (TG_INSERT NEW)
    show ?thesis
    proof (cases "uid = user_id r \<and> i = clothing_item_id NEW")
      case True
      then obtain r' where s: "stats_after_insert now NEW r = Inr r'"
        using trigger_success(1) [OF t g _ TG_INSERT] by blast
      then have "get_item d' i = Some r'"
        using get_item_after_insert_trigger [OF t [unfolded TG_INSERT], of i] g True by simp
      moreover from s tw m have "\<exists>m'. times_worn r' = Some m' \<and> 0 \<le> m'"
        by (auto simp: stats_after_insert_def int4_plus_def int4_def split: sum.splits if_splits)
      ultimately show ?thesis by (auto simp: counter_nonneg_iff)
    next
      case False
      then have "get_item d' i = Some r"
        using get_item_after_insert_trigger [OF t [unfolded TG_INSERT], of i] g by auto
      with tw m show ?thesis by (auto simp: counter_nonneg_iff)
    qed
  next
    case (TG_DELETE OLD)
    show ?thesis
    proof (cases "uid = user_id r \<and> i = clothing_item_id OLD")
      case True
      then obtain r' where s: "stats_after_delete uid now (wear_history d) OLD r = Inr r'"
        using trigger_success(2) [OF t g _ TG_DELETE] by blast
      then have "get_item d' i = Some r'"
        using get_item_after_delete_trigger [OF t [unfolded TG_DELETE], of i] g True by simp
      moreover from s tw m have "\<exists>m'. times_worn r' = Some m' \<and> 0 \<le> m'"
        by (auto simp: stats_after_delete_def int4_plus_def int4_def sql_greatest_def
            split: sum.splits if_splits)
      ultimately show ?thesis by (auto simp: counter_nonneg_iff)
    next
      case False
      then have "get_item d' i = Some r"
        using get_item_after_delete_trigger [OF t [unfolded TG_DELETE], of i] g by auto
      with tw m show ?thesis by (auto simp: counter_nonneg_iff)
    qed
  qed
qed

lemma fire_nonneg:
  "fire uid now evs d = Inr d' \<Longrightarrow> counter_nonneg d i \<Longrightarrow> counter_nonneg d' i"
proof (induction evs arbitrary: d)
  case Nil
  then show ?case by simp
next
  case (Cons ev evs)
  then show ?case
    by (auto split: sum.splits dest: trigger_nonneg)
qed

lemma counter_nonneg_cong:
  "clothing_items d' = clothing_items d \<Longrightarrow> counter_nonneg d' i = counter_nonneg d i"
  by (simp add: counter_nonneg_iff get_item_def)

lemma execute_nonneg:
  assumes e: "execute uid now st d = Inr d'" and c: "counter_nonneg d i"
  shows "counter_nonneg d' i"
proof (cases st)
  case (INSERT_INTO_wear_history entries)
  define d1 where "d1 = d\<lparr>wear_history := wear_history d
        @ new_wear_rows now (gen_random_uuid d) entries,
      gen_random_uuid := gen_random_uuid d + length entries\<rparr>"
  have f: "fire uid now (map TG_INSERT (new_wear_rows now (gen_random_uuid d) entries)) d1 = Inr d'"
    using e unfolding INSERT_INTO_wear_history execute_def insert_wear_history_def d1_def
    by (simp add: Let_def split: if_splits)
  have "clothing_items d1 = clothing_items d"
    by (simp add: d1_def)
  then have "counter_nonneg d1 i"
    using c by (rule counter_nonneg_cong [THEN iffD2])
  then show ?thesis by (rule fire_nonneg [OF f])
next
  case (DELETE_FROM_wear_history w)
  define d1 where "d1 = d\<lparr>wear_history :=
      filter (\<lambda>r. \<not> (policy_wear_history uid r \<and> wh_id r = w)) (wear_history d)\<rparr>"
  have f: "fire uid now (map TG_DELETE
      (filter (\<lambda>r. policy_wear_history uid r \<and> wh_id r = w) (wear_history d))) d1 = Inr d'"
    using e unfolding DELETE_FROM_wear_history execute_def delete_wear_history_def d1_def
    by (simp add: Let_def)
  have "clothing_items d1 = clothing_items d"
    by (simp add: d1_def)
  then have "counter_nonneg d1 i"
    using c by (rule counter_nonneg_cong [THEN iffD2])
  then show ?thesis by (rule fire_nonneg [OF f])
qed

lemma run_nonneg: "counter_nonneg d i \<Longrightarrow> counter_nonneg (run reqs d) i"
proof (induction reqs arbitrary: d)
  case Nil
  then show ?case by simp
next
  case (Cons q reqs)
  obtain uid now st where q: "q = (uid, now, st)" by (cases q)
  show ?case
  proof (cases "execute uid now st d")
    case (Inl e)
    then show ?thesis using Cons.prems by (simp add: q Cons.IH)
  next
    case (Inr d')
    then have "counter_nonneg d' i" using Cons.prems by (rule execute_nonneg)
    then show ?thesis using Inr by (simp add: q Cons.IH)
  qed
qed

lemma primary_key_unique:
  assumes "primary_key d" and "get_item d i = Some r"
    and "x \<in> set (clothing_items d)" and "ci_id x = i"
  shows "x = r"
  using assms find_distinct_key [of ci_id "clothing_items d" i r x]
  by (simp add: primary_key_def get_item_def)

lemma trigger_primary_key:
  "update_clothing_item_stats uid now ev d = Inr d' \<Longrightarrow> primary_key d' = primary_key d"
  by (simp add: primary_key_def trigger_frame)

lemma insert_trigger_total:
  assumes pk: "primary_key d" and g: "get_item d i = Some r"
    and ok: "\<exists>r'. stats_after_insert now NEW r = Inr r'"
    and i: "clothing_item_id NEW = i"
  shows "\<exists>d'. update_clothing_item_stats uid now (TG_INSERT NEW) d = Inr d'"
proof -
  have "\<exists>rows. update_rows (\<lambda>r. policy_clothing_items uid r \<and> ci_id r = clothing_item_id NEW)
      (stats_after_insert now NEW) (clothing_items d) = Inr rows"
  proof (rule update_rows_total)
    fix x assume "x \<in> set (clothing_items d)"
      and "policy_clothing_items uid x \<and> ci_id x = clothing_item_id NEW"
    then have "x = r" using primary_key_unique [OF pk g] i by simp
    then show "\<exists>r'. stats_after_insert now NEW x = Inr r'" using ok by simp
  qed
  then show ?thesis
    by (auto simp: update_clothing_item_stats_def)
qed

lemma delete_trigger_total:
  assumes pk: "primary_key d" and g: "get_item d i = Some r"
    and ok: "\<exists>r'. stats_after_delete uid now (wear_history d) OLD r = Inr r'"
    and i: "clothing_item_id OLD = i"
  shows "\<exists>d'. update_clothing_item_stats uid now (TG_DELETE OLD) d = Inr d'"
proof -
  have "\<exists>rows. update_rows (\<lambda>r. policy_clothing_items uid r \<and> ci_id r = clothing_item_id OLD)
      (stats_after_delete uid now (wear_history d) OLD) (clothing_items d) = Inr rows"
  proof (rule update_rows_total)
    fix x assume "x \<in> set (clothing_items d)"
      and "policy_clothing_items uid x \<and> ci_id x = clothing_item_id OLD"
    then have "x = r" using primary_key_unique [OF pk g] i by simp
    then show "\<exists>r'. stats_after_delete uid now (wear_history d) OLD x = Inr r'" using ok by simp
  qed
  then show ?thesis
    by (auto simp: update_clothing_item_stats_def)
qed

lemma recordWear_step:
  assumes pk: "primary_key d" and g: "get_item d i = Some r" and u: "user_id r = uid"
    and tw: "times_worn r = Some n" and n: "n < 2147483647" and n0: "- 2147483649 \<le> n"
  shows "\<exists>d' r'. recordWear uid now i dateWorn d = Inr d' \<and> primary_key d' \<and>
      get_item d' i = Some r' \<and> user_id r' = uid \<and> times_worn r' = Some (n + 1) \<and>
      last_worn_date r' = (case dateWorn of Some dw \<Rightarrow> Some dw | None \<Rightarrow> last_worn_date r)"
proof -
  define NEW where "NEW = \<lparr>wh_user_id = uid, clothing_item_id = i, date_worn = dateWorn,
    wh_id = gen_random_uuid d, wh_notes = None, wh_created_at = now\<rparr>"
  define d1 where "d1 = d\<lparr>wear_history := wear_history d @ [NEW],
    gen_random_uuid := gen_random_uuid d + 1\<rparr>"
  define r' where "r' = r\<lparr>times_worn := Some (n + 1),
    last_worn_date := (case dateWorn of Some dw \<Rightarrow> Some dw | None \<Rightarrow> last_worn_date r),
    updated_at := now\<rparr>"
  have s: "stats_after_insert now NEW r = Inr r'"
    using tw n n0 by (simp add: stats_after_insert_def int4_plus_def int4_def r'_def NEW_def)
  have g1: "get_item d1 i = Some r" and pk1: "primary_key d1"
    using g pk by (simp_all add: get_item_def primary_key_def d1_def)
  from insert_trigger_total [OF pk1 g1, of now NEW uid] s obtain d'
    where t: "update_clothing_item_stats uid now (TG_INSERT NEW) d1 = Inr d'"
    by (auto simp: NEW_def)
  have fk: "list_ex (\<lambda>r. ci_id r = i) (clothing_items d)"
    using get_item_in_set [OF g] by (auto simp: list_ex_iff)
  have "recordWear uid now i dateWorn d = Inr d'"
    using t fk by (simp add: recordWear_def insert_wear_history_def policy_wear_history_def
        NEW_def d1_def)
  moreover have "get_item d' i = Some r'"
    using get_item_after_insert_trigger [OF t, of i] g1 u s by (simp add: NEW_def)
  moreover have "primary_key d'"
    using trigger_primary_key [OF t] pk1 by simp
  ultimately show ?thesis
    using u by (auto simp: r'_def)
qed

lemma last_dated_Cons:
  "last_dated start ((now, dateWorn) # calls) =
     last_dated (case dateWorn of Some dw \<Rightarrow> Some dw | None \<Rightarrow> start) calls"
  by (simp add: last_dated_def)

lemma recordWear_calls_counter:
  "primary_key d \<Longrightarrow> get_item d i = Some r \<Longrightarrow> user_id r = uid \<Longrightarrow> times_worn r = Some n
    \<Longrightarrow> - 2147483648 \<le> n \<Longrightarrow> n + int (length calls) \<le> 2147483647
    \<Longrightarrow> \<exists>d' r'. recordWear_calls uid i calls d = Inr d' \<and> get_item d' i = Some r' \<and>
          times_worn r' = Some (n + int (length calls)) \<and>
          last_worn_date r' = last_dated (last_worn_date r) calls"
proof (induction calls arbitrary: d r n)
  case Nil
  then show ?case by (simp add: last_dated_def)
next
  case (Cons c calls)
  obtain now dateWorn where c: "c = (now, dateWorn)" by (cases c)
  have "n < 2147483647" "- 2147483649 \<le> n" using Cons.prems(5,6) by simp_all
  from recordWear_step [OF Cons.prems(1-4) this, of now dateWorn]
  obtain d1 r1 where s: "recordWear uid now i dateWorn d = Inr d1" and pk1: "primary_key d1"
    and g1: "get_item d1 i = Some r1" and u1: "user_id r1 = uid"
    and tw1: "times_worn r1 = Some (n + 1)"
    and l1: "last_worn_date r1 = (case dateWorn of Some dw \<Rightarrow> Some dw | None \<Rightarrow> last_worn_date r)"
    by blast
  have "- 2147483648 \<le> n + 1" "n + 1 + int (length calls) \<le> 2147483647"
    using Cons.prems(5,6) by simp_all
  from Cons.IH [OF pk1 g1 u1 tw1 this]
  obtain d' r' where "recordWear_calls uid i calls d1 = Inr d'" "get_item d' i = Some r'"
    "times_worn r' = Some (n + 1 + int (length calls))"
    "last_worn_date r' = last_dated (last_worn_date r1) calls"
    by blast
  then show ?case
    using s l1 by (simp add: c last_dated_Cons)
qed

lemma delete_wear_step:
  assumes pk: "primary_key d" and g: "get_item d i = Some r" and u: "user_id r = uid"
    and tw: "times_worn r = Some n" and n: "- 2147483648 < n" and n1: "n \<le> 2147483648"
    and hit: "filter (\<lambda>x. policy_wear_history uid x \<and> wh_id x = w) (wear_history d) = [OLD]"
    and i: "clothing_item_id OLD = i"
  shows "\<exists>d' r'. delete_wear_history uid now w d = Inr d' \<and>
      get_item d' i = Some r' \<and> times_worn r' = Some (max (n - 1) 0) \<and>
      last_worn_date r' = max_date_worn uid i (wear_history d') \<and>
      wear_history d' = filter (\<lambda>x. \<not> (policy_wear_history uid x \<and> wh_id x = w)) (wear_history d)"
proof -
  define d1 where "d1 = d\<lparr>wear_history :=
    filter (\<lambda>x. \<not> (policy_wear_history uid x \<and> wh_id x = w)) (wear_history d)\<rparr>"
  define r' where "r' = r\<lparr>times_worn := Some (max (n - 1) 0),
    last_worn_date := max_date_worn uid i (wear_history d1), updated_at := now\<rparr>"
  have s: "stats_after_delete uid now (wear_history d1) OLD r = Inr r'"
    using tw n n1 i
    by (simp add: stats_after_delete_def int4_plus_def int4_def sql_greatest_def r'_def)
  have g1: "get_item d1 i = Some r" and pk1: "primary_key d1"
    using g pk by (simp_all add: get_item_def primary_key_def d1_def)
  from delete_trigger_total [OF pk1 g1 _ i, of uid now] s obtain d'
    where t: "update_clothing_item_stats uid now (TG_DELETE OLD) d1 = Inr d'"
    by auto
  have "delete_wear_history uid now w d = Inr d'"
    using t hit by (simp add: delete_wear_history_def d1_def)
  moreover have "get_item d' i = Some r'"
    using get_item_after_delete_trigger [OF t, of i] g1 u s i by simp
  moreover have "wear_history d' = wear_history d1"
    using trigger_frame [OF t] by simp
  ultimately show ?thesis
    by (auto simp: r'_def d1_def)
qed

section \<open>Recording wears\<close>

text \<open>
  Where the tracker sends its request (a user is signed in and no request for the item
  is under way), the request is that of \<^const>\<open>recordWear\<close> with the UTC day of the
  client, and the local copy of the item gets one more wear and that day.
\<close>

lemma handleAddWear_records:
  "addingWearFor \<noteq> Some (ci_id item) \<Longrightarrow>
   handleAddWear (Some uid) addingWearFor NoFault now t1 t2 item (items, d) =
     (case recordWear uid now (ci_id item) (Some (toISODate t1)) d of
        Inl e \<Rightarrow> (Some (Alert ''Error'' ''Failed to add wear. Please try again.''), items, d)
      | Inr d' \<Rightarrow>
          (None,
           map (\<lambda>i. if ci_id i = ci_id item
                     then i\<lparr>times_worn := Some (or_zero (times_worn i) + 1),
                            last_worn_date := Some (toISODate t2)\<rparr>
                     else i) items,
           d'))"
  by (simp add: handleAddWear_def supabase_insert_wear_history_def recordWear_def
      split: sum.splits)

text \<open>
  Let an item of user \<open>uid\<close> have the counter \<open>n\<close>, and let the user record \<open>k\<close> wears
  of it one after the other, with or without a date, where \<open>n + k\<close> still fits the
  \<^verbatim>\<open>INTEGER\<close> column.  Then every request is accepted, and afterwards the counter of
  the item is \<open>n + k\<close>: each call adds exactly 1 to the counter that is stored.  The last
  worn date is then the date of the last call that carried one (and the old one if no
  call did); so a single call with date \<open>dw\<close> sets it to \<open>dw\<close>.
\<close>

lemma recordWear_adds_one_per_call:
  assumes "primary_key d" and "get_item d itemId = Some r" and "user_id r = uid"
    and "times_worn r = Some n" and "- 2147483648 \<le> n"
    and "n + int (length calls) \<le> 2147483647"
  shows "\<exists>d' r'. recordWear_calls uid itemId calls d = Inr d' \<and>
      get_item d' itemId = Some r' \<and>
      times_worn r' = Some (n + int (length calls)) \<and>
      last_worn_date r' = last_dated (last_worn_date r) calls \<and>
      (\<forall>now dw. calls = [(now, Some dw)]
         \<longrightarrow> times_worn r' = Some (n + 1) \<and> last_worn_date r' = Some dw)"
proof -
  from recordWear_calls_counter [OF assms] obtain d' r'
    where *: "recordWear_calls uid itemId calls d = Inr d'" "get_item d' itemId = Some r'"
      "times_worn r' = Some (n + int (length calls))"
      "last_worn_date r' = last_dated (last_worn_date r) calls"
    by blast
  then have "\<forall>now dw. calls = [(now, Some dw)]
      \<longrightarrow> times_worn r' = Some (n + 1) \<and> last_worn_date r' = Some dw"
    by (auto simp: last_dated_def)
  with * show ?thesis by blast
qed

lemma recordWear_adds_one_per_call_example:
  "primary_key example_db \<and> get_item example_db 1 = Some example_item \<and>
   user_id example_item = 7 \<and> times_worn example_item = Some 0 \<and>
   (\<exists>d' r'. recordWear_calls 7 1 [(100, Some 19797)] example_db = Inr d' \<and>
      get_item d' 1 = Some r' \<and> times_worn r' = Some 1 \<and>
      last_worn_date r' = Some 19797)"
proof -
  have a: "primary_key example_db" "get_item example_db 1 = Some example_item"
    "user_id example_item = 7" "times_worn example_item = Some 0"
    by (simp_all add: example_db_def example_item_def primary_key_def get_item_def)
  from recordWear_adds_one_per_call [OF a, of "[(100, Some 19797)]"] a
  show ?thesis by auto
qed

text \<open>
  Claim C5.  An item is created with the count \<^verbatim>\<open>3\<close> in the field of wears so far, and
  then one wear is recorded for it, dated 2024-03-15; the backend accepts every
  request.  The seeded initial count is 3 and one call was made, so the claim gives the
  counter 4, which is also the number of wear events of the item.  The creation leaves
  the counter at 6 (the count is stored with the item and added once more by the
  trigger for the three seeded events), and the call adds 1: the counter is 7.  The
  call itself adds exactly 1 and sets the last worn date to its date.
\<close>

theorem times_worn_after_seeding_and_one_wear:
  "recordWear_calls 7 1 [(30, Some 19797)]
     (fst (snd (proceedWithSave parseFloat_NaN (NoFault, NoFault) (10, 20) 7
        (example_form\<lparr>item_times_worn := ''3''\<rparr>) [] empty_state)))
   = Inr \<lparr>clothing_items =
            [\<lparr>user_id = 7, name = ''Shirt'', category = ''tops'', subcategory = None,
              brand = None, color = None, pattern = None, material = None,
              purchase_date = None, purchase_price = None, purchase_location = None,
              second_hand = False, dog_wear = False, times_worn = Some 7,
              notes_text = None, image_urls = None, ci_id = 1,
              last_worn_date = Some 19797, created_at = 10, updated_at = 30\<rparr>],
          wear_history =
            [\<lparr>wh_user_id = 7, clothing_item_id = 1, date_worn = None, wh_id = 2,
              wh_notes = None, wh_created_at = 20\<rparr>,
             \<lparr>wh_user_id = 7, clothing_item_id = 1, date_worn = None, wh_id = 3,
              wh_notes = None, wh_created_at = 20\<rparr>,
             \<lparr>wh_user_id = 7, clothing_item_id = 1, date_worn = None, wh_id = 4,
              wh_notes = None, wh_created_at = 20\<rparr>,
             \<lparr>wh_user_id = 7, clothing_item_id = 1, date_worn = Some 19797, wh_id = 5,
              wh_notes = None, wh_created_at = 30\<rparr>],
          gen_random_uuid = 6\<rparr>"
  by (simp add: recordWear_def proceedWithSave_def prepare_clothingItemData_def
      supabase_insert_clothing_items_def supabase_insert_wear_history_def
      insert_clothing_items_def new_clothing_items_row_def insert_wear_history_def
      update_clothing_item_stats_def stats_after_insert_def policy_wear_history_def
      policy_clothing_items_def int4_plus_def int4_def add_suggestions_def
      setSuggestions_def or_null_def trim_def example_form_def empty_state_def empty_db_def
      initial_module_def parseFloat_NaN_def Let_def parseInt_def trimStart_def
      is_white_space_def is_radix_digit_def digit_value_def radix_value_def or_zero_def
      numeral_3_eq_3)

section \<open>The last worn date\<close>

text \<open>
  Claim C2.  The item has been worn on 2024-03-15; a wear on 2024-01-01 is recorded
  afterwards.  The insert branch of the trigger stores the date of the new row whatever
  the stored date is, so the last worn date becomes 2024-01-01, while the greatest date
  among the item's wear events is 2024-03-15.
\<close>

theorem last_worn_date_after_earlier_wear:
  "map last_worn_date
     (clothing_items (run [(7, 100, worn_on 19797), (7, 200, worn_on 19723)] example_db))
     = [Some 19723] \<and>
   max_date_worn 7 1
     (wear_history (run [(7, 100, worn_on 19797), (7, 200, worn_on 19723)] example_db))
     = Some 19797"
  by (simp add: example_db_def example_item_def worn_on_def execute_def
      insert_wear_history_def policy_wear_history_def policy_clothing_items_def
      update_clothing_item_stats_def stats_after_insert_def int4_plus_def int4_def
      max_date_worn_def dates_worn_def sql_max_def List.map_filter_def)

section \<open>The counter is not negative\<close>

text \<open>
  Claim C10, as amended.  A counter that is not negative stays so under every sequence
  of insertions and deletions of wear events, by whichever users and on whichever items.
  The deletion of a wear event of the item, by its owner, sets the counter \<open>n\<close> to
  \<open>max (n - 1) 0\<close>, also when \<open>n\<close> is negative.
\<close>

theorem times_worn_stays_nonnegative:
  assumes "get_item d i = Some r" and "times_worn r = Some n"
  shows "(0 \<le> n \<longrightarrow>
            (\<exists>r' m. get_item (run reqs d) i = Some r' \<and> times_worn r' = Some m \<and> 0 \<le> m)) \<and>
         (primary_key d \<and> user_id r = uid \<and> - 2147483648 < n \<and> n \<le> 2147483647 \<and>
          filter (\<lambda>x. policy_wear_history uid x \<and> wh_id x = w) (wear_history d) = [OLD] \<and>
          clothing_item_id OLD = i \<longrightarrow>
            (\<exists>d' r'. delete_wear_history uid now w d = Inr d' \<and>
               get_item d' i = Some r' \<and> times_worn r' = Some (max (n - 1) 0)))"
proof (intro conjI impI)
  assume "0 \<le> n"
  with assms have "counter_nonneg d i"
    by (auto simp: counter_nonneg_iff)
  then have "counter_nonneg (run reqs d) i"
    by (rule run_nonneg)
  then show "\<exists>r' m. get_item (run reqs d) i = Some r' \<and> times_worn r' = Some m \<and> 0 \<le> m"
    by (simp add: counter_nonneg_iff)
next
  assume a: "primary_key d \<and> user_id r = uid \<and> - 2147483648 < n \<and> n \<le> 2147483647 \<and>
    filter (\<lambda>x. policy_wear_history uid x \<and> wh_id x = w) (wear_history d) = [OLD] \<and>
    clothing_item_id OLD = i"
  then have "n \<le> 2147483648" by simp
  with a assms delete_wear_step [of d i r uid n w OLD now]
  show "\<exists>d' r'. delete_wear_history uid now w d = Inr d' \<and>
      get_item d' i = Some r' \<and> times_worn r' = Some (max (n - 1) 0)"
    by blast
qed

theorem times_worn_stays_nonnegative_witness:
  "get_item (example_db\<lparr>wear_history := [example_wear]\<rparr>) 1 = Some example_item \<and>
   times_worn example_item = Some 0 \<and>
   (\<exists>r' m. get_item
       (run [(7, 100, worn_on 19797), (7, 200, DELETE_FROM_wear_history 2)]
          (example_db\<lparr>wear_history := [example_wear]\<rparr>)) 1 = Some r' \<and>
       times_worn r' = Some m \<and> 0 \<le> m) \<and>
   primary_key (example_db\<lparr>wear_history := [example_wear]\<rparr>) \<and>
   filter (\<lambda>x. policy_wear_history 7 x \<and> wh_id x = 2)
     (wear_history (example_db\<lparr>wear_history := [example_wear]\<rparr>)) = [example_wear] \<and>
   clothing_item_id example_wear = 1 \<and>
   (\<exists>d' r'. delete_wear_history 7 300 2 (example_db\<lparr>wear_history := [example_wear]\<rparr>) = Inr d' \<and>
      get_item d' 1 = Some r' \<and> times_worn r' = Some 0)"
proof -
  let ?d = "example_db\<lparr>wear_history := [example_wear]\<rparr>"
  have a: "get_item ?d 1 = Some example_item" "times_worn example_item = Some 0"
    by (simp_all add: example_db_def example_item_def get_item_def)
  have b: "primary_key ?d" "user_id example_item = 7"
    "filter (\<lambda>x. policy_wear_history 7 x \<and> wh_id x = 2) (wear_history ?d) = [example_wear]"
    "clothing_item_id example_wear = 1"
    by (simp_all add: example_db_def example_item_def example_wear_def primary_key_def
        policy_wear_history_def)
  from times_worn_stays_nonnegative [OF a,
      of "[(7, 100, worn_on 19797), (7, 200, DELETE_FROM_wear_history 2)]" 7 2 example_wear 300]
    a b
  show ?thesis by simp
qed

theorem times_worn_negative_start_counterexample:
  "map times_worn (clothing_items (run [(7, 100, worn_on 19797)]
     (example_db\<lparr>clothing_items := [example_item\<lparr>times_worn := Some (- 5)\<rparr>]\<rparr>)))
     = [Some (- 4)]"
  by (simp add: example_db_def example_item_def worn_on_def execute_def
      insert_wear_history_def policy_wear_history_def policy_clothing_items_def
      update_clothing_item_stats_def stats_after_insert_def int4_plus_def int4_def)

section \<open>The most worn item\<close>

lemma reduce_mostWornItem_snoc:
  "reduce_mostWornItem (xs @ [x]) = mostWorn_callback (reduce_mostWornItem xs) x"
  by (simp add: reduce_mostWornItem_def)

lemma reduce_mostWornItem_first_max:
  "xs \<noteq> [] \<Longrightarrow>
    \<exists>i<length xs. reduce_mostWornItem xs = Some (xs ! i) \<and>
      (\<forall>j<length xs. or_zero (times_worn (xs ! j)) \<le> or_zero (times_worn (xs ! i))) \<and>
      (\<forall>j<i. or_zero (times_worn (xs ! j)) < or_zero (times_worn (xs ! i)))"
proof (induction xs rule: rev_induct)
  case Nil
  then show ?case by simp
next
  case (snoc x xs)
  show ?case
  proof (cases "xs = []")
    case True
    then show ?thesis by (simp add: reduce_mostWornItem_def mostWorn_callback_def)
  next
    case False
    from snoc.IH [OF False] obtain i where i: "i < length xs"
      and r: "reduce_mostWornItem xs = Some (xs ! i)"
      and mx: "\<forall>j<length xs. or_zero (times_worn (xs ! j)) \<le> or_zero (times_worn (xs ! i))"
      and fst: "\<forall>j<i. or_zero (times_worn (xs ! j)) < or_zero (times_worn (xs ! i))"
      by blast
    show ?thesis
    proof (cases "or_zero (times_worn x) > or_zero (times_worn (xs ! i))")
      case True
      have lt: "or_zero (times_worn (xs ! j)) < or_zero (times_worn x)" if "j < length xs" for j
        using True mx that by (meson le_less_trans)
      have "reduce_mostWornItem (xs @ [x]) = Some ((xs @ [x]) ! length xs)"
        using True r by (simp add: reduce_mostWornItem_snoc mostWorn_callback_def)
      moreover have "\<forall>j<length (xs @ [x]). or_zero (times_worn ((xs @ [x]) ! j))
          \<le> or_zero (times_worn ((xs @ [x]) ! length xs))"
        using lt by (auto simp: nth_append less_Suc_eq less_imp_le)
      moreover have "\<forall>j<length xs. or_zero (times_worn ((xs @ [x]) ! j))
          < or_zero (times_worn ((xs @ [x]) ! length xs))"
        using lt by (simp add: nth_append)
      ultimately show ?thesis
        by (intro exI [of _ "length xs"]) simp
    next
      case False
      have "reduce_mostWornItem (xs @ [x]) = Some ((xs @ [x]) ! i)"
        using False r i by (simp add: reduce_mostWornItem_snoc mostWorn_callback_def nth_append)
      moreover have "\<forall>j<length (xs @ [x]). or_zero (times_worn ((xs @ [x]) ! j))
          \<le> or_zero (times_worn ((xs @ [x]) ! i))"
        using False mx i by (auto simp: nth_append less_Suc_eq)
      moreover have "\<forall>j<i. or_zero (times_worn ((xs @ [x]) ! j))
          < or_zero (times_worn ((xs @ [x]) ! i))"
        using fst i by (auto simp: nth_append)
      ultimately show ?thesis
        using i by (intro exI [of _ i]) simp
    qed
  qed
qed

lemma reduce_mostWornItem_None: "reduce_mostWornItem xs = None \<longleftrightarrow> xs = []"
proof (cases "xs = []")
  case True
  then show ?thesis by (simp add: reduce_mostWornItem_def)
next
  case False
  then show ?thesis using reduce_mostWornItem_first_max [OF False] by auto
qed

text \<open>
  Claim C3, as amended.  The most worn item of the overview is absent exactly when the
  list of items is empty.  For a list that is not empty it is the first item, in input
  order, whose count of wears (an absent count is 0) is the greatest of the list: no
  item has a greater count and every earlier item has a smaller one.  This holds also
  when every count is 0.
\<close>

theorem mostWornItem_first_greatest:
  "(mostWornItem (computeOverviewStats items t) = None \<longleftrightarrow> items = []) \<and>
   (items \<noteq> [] \<longrightarrow>
     (\<exists>i<length items.
        reduce_mostWornItem items = Some (items ! i) \<and>
        mostWornItem (computeOverviewStats items t)
          = Some (name (items ! i), times_worn (items ! i)) \<and>
        (\<forall>j<length items.
           or_zero (times_worn (items ! j)) \<le> or_zero (times_worn (items ! i))) \<and>
        (\<forall>j<i. or_zero (times_worn (items ! j)) < or_zero (times_worn (items ! i)))))"
proof (intro conjI impI)
  show "mostWornItem (computeOverviewStats items t) = None \<longleftrightarrow> items = []"
    using reduce_mostWornItem_None [of items]
    by (cases "reduce_mostWornItem items") (auto simp: computeOverviewStats_def)
next
  assume "items \<noteq> []"
  from reduce_mostWornItem_first_max [OF this] obtain i where "i < length items"
    and r: "reduce_mostWornItem items = Some (items ! i)"
    and "\<forall>j<length items. or_zero (times_worn (items ! j)) \<le> or_zero (times_worn (items ! i))"
    and "\<forall>j<i. or_zero (times_worn (items ! j)) < or_zero (times_worn (items ! i))"
    by blast
  moreover from r have "mostWornItem (computeOverviewStats items t)
      = Some (name (items ! i), times_worn (items ! i))"
    by (simp add: computeOverviewStats_def)
  ultimately show "\<exists>i<length items.
        reduce_mostWornItem items = Some (items ! i) \<and>
        mostWornItem (computeOverviewStats items t)
          = Some (name (items ! i), times_worn (items ! i)) \<and>
        (\<forall>j<length items.
           or_zero (times_worn (items ! j)) \<le> or_zero (times_worn (items ! i))) \<and>
        (\<forall>j<i. or_zero (times_worn (items ! j)) < or_zero (times_worn (items ! i)))"
    by blast
qed

theorem mostWornItem_first_greatest_witness:
  "example_wardrobe \<noteq> [] \<and>
   mostWornItem (computeOverviewStats example_wardrobe 0) \<noteq> None \<and>
   (\<exists>i<length example_wardrobe.
      reduce_mostWornItem example_wardrobe = Some (example_wardrobe ! i) \<and>
      mostWornItem (computeOverviewStats example_wardrobe 0)
        = Some (name (example_wardrobe ! i), times_worn (example_wardrobe ! i)) \<and>
      (\<forall>j<length example_wardrobe.
         or_zero (times_worn (example_wardrobe ! j))
           \<le> or_zero (times_worn (example_wardrobe ! i))) \<and>
      (\<forall>j<i. or_zero (times_worn (example_wardrobe ! j))
           < or_zero (times_worn (example_wardrobe ! i))))"
proof -
  have ne: "example_wardrobe \<noteq> []"
    by (simp add: example_wardrobe_def)
  from mostWornItem_first_greatest [of example_wardrobe 0] ne show ?thesis
    by simp
qed

theorem mostWornItem_all_zero_counterexample:
  "times_worn example_item = Some 0 \<and>
   mostWornItem (computeOverviewStats [example_item] 0) = Some (''Shirt'', Some 0)"
  by (simp add: computeOverviewStats_def reduce_mostWornItem_def mostWorn_callback_def
      example_item_def)

section \<open>The cost per wear\<close>

lemma costPerWear_absent:
  "purchase_price item = None \<or> times_worn item = None \<or> times_worn item = Some 0
    \<Longrightarrow> costPerWear item = None"
  by (auto simp: costPerWear_def split: option.splits)

lemma costPerWear_quotient:
  "purchase_price item = Some price \<Longrightarrow> price \<noteq> 0 \<Longrightarrow> times_worn item = Some n \<Longrightarrow> 0 < n
    \<Longrightarrow> costPerWear item = Some (price / of_int n)"
  by (simp add: costPerWear_def)

text \<open>
  Claim C4.  An item that was bought for 0 and worn 3 times has a present price and a
  positive count, and the claim gives it a cost per wear of 0; the expression of the
  client gives it none.
\<close>

theorem costPerWear_price_zero:
  "costPerWear (example_item\<lparr>purchase_price := Some 0, times_worn := Some 3\<rparr>) = None"
  by (simp add: costPerWear_def)

section \<open>The suggestion cache\<close>

text \<open>The order on strings compares code units: capitals come before small letters, and
  a proper prefix comes before the longer string.\<close>

lemma string_order_examples:
  "''Nike'' < ''adidas'' \<and> ''Nik'' < ''Nike'' \<and> \<not> ''adidas'' < ''Adidas''"
  by simp

lemma Array_from_Set_aux:
  "distinct acc \<Longrightarrow>
    distinct (foldl (\<lambda>acc x. if x \<in> set acc then acc else acc @ [x]) acc xs) \<and>
    set (foldl (\<lambda>acc x. if x \<in> set acc then acc else acc @ [x]) acc xs) = set acc \<union> set xs"
  by (induction xs arbitrary: acc) auto

lemma distinct_Array_from_Set: "distinct (Array_from_Set xs)"
  and set_Array_from_Set: "set (Array_from_Set xs) = set xs"
  using Array_from_Set_aux [of "[]" xs] by (simp_all add: Array_from_Set_def)

lemma unique_values_tidy: "sorted (unique_values vs) \<and> distinct (unique_values vs)"
  by (simp add: unique_values_def distinct_Array_from_Set)

lemma tidy_empty: "tidy \<lparr>brands = [], subcategories = []\<rparr>"
  by (simp add: tidy_def)

lemma fetch_suggestions_tidy:
  "cache_tidy m \<Longrightarrow> tidy (fst (fetch_suggestions now reply m)) \<and>
     cache_tidy (snd (fetch_suggestions now reply m))"
  by (auto simp: fetch_suggestions_def cache_tidy_def tidy_def unique_values_tidy Let_def
      split: response.splits option.splits list.splits)

lemma getSuggestions_tidy:
  "cache_tidy m \<Longrightarrow> tidy (fst (getSuggestions q u f now m)) \<and>
     cache_tidy (snd (getSuggestions q u f now m))"
  using fetch_suggestions_tidy [of m now "q u"]
  by (auto simp: getSuggestions_def cache_tidy_def split: option.splits)

lemma addToSuggestionsCache_tidy:
  "cache_tidy m \<Longrightarrow> cache_tidy (addToSuggestionsCache k v m)"
  by (auto simp: addToSuggestionsCache_def cache_tidy_def tidy_def Let_def split: option.splits)

lemma clearSuggestionsCache_tidy: "cache_tidy (clearSuggestionsCache m)"
  by (simp add: clearSuggestionsCache_def cache_tidy_def)

lemma module_after_tidy: "cache_tidy m \<Longrightarrow> cache_tidy (module_after cs m)"
proof (induction cs m rule: module_after.induct)
  case (1 m)
  then show ?case by simp
next
  case (2 reply userId forceRefresh now cs m)
  then show ?case by (simp add: getSuggestions_tidy)
next
  case (3 type val cs m)
  then show ?case by (simp add: addToSuggestionsCache_tidy)
next
  case (4 cs m)
  then show ?case by (simp add: clearSuggestionsCache_tidy)
qed

lemma initial_module_tidy: "cache_tidy initial_module"
  by (simp add: initial_module_def cache_tidy_def)

text \<open>
  Claim C8.  When a call of \<^verbatim>\<open>getSuggestions\<close> asks the backend and the query fails (the
  reply carries an error, or the promise rejects), the call returns the empty
  suggestion set as an ordinary value, and the cache and its timestamp are as before.
  This holds for every user id.
\<close>

theorem getSuggestions_query_failure:
  assumes "asks_backend forceRefresh now m"
    and "query userId = Throws \<or> (\<exists>dat e. query userId = Response dat (Some e))"
  shows "getSuggestions query userId forceRefresh now m
           = (\<lparr>brands = [], subcategories = []\<rparr>, m)"
  using assms
  by (auto simp: getSuggestions_def fetch_suggestions_def asks_backend_def
      split: option.splits)

theorem getSuggestions_query_failure_witness:
  "asks_backend False 400000 (module_after example_calls initial_module) \<and>
   suggestionsCache (module_after example_calls initial_module) \<noteq> None \<and>
   getSuggestions (\<lambda>u. Response None (Some FetchError)) 7 False 400000
       (module_after example_calls initial_module)
     = (\<lparr>brands = [], subcategories = []\<rparr>, module_after example_calls initial_module)"
proof -
  have m: "module_after example_calls initial_module
      = \<lparr>suggestionsCache = Some \<lparr>brands = [''Adidas'', ''Boss'', ''Nike''],
            subcategories = [''tee'']\<rparr>, lastCacheTime = 1000\<rparr>"
    by (simp add: example_calls_def example_rows_def example_item_def initial_module_def
        addToSuggestionsCache_def getSuggestions_def fetch_suggestions_def unique_values_def
        Array_from_Set_def trim_def is_white_space_def Let_def)
  have a: "asks_backend False 400000 (module_after example_calls initial_module)"
    by (simp add: m asks_backend_def CACHE_DURATION_def)
  from getSuggestions_query_failure [OF a, of "\<lambda>u. Response None (Some FetchError)" 7] a
  show ?thesis by (simp add: m)
qed

text \<open>
  Claim C9.  Start from the module as it is loaded and call its functions in any order,
  with any arguments and any replies of the backend.  Then the lists of the cache, if
  there is one, have no duplicates and are sorted in ascending order, and so are the
  lists a further call of \<^verbatim>\<open>getSuggestions\<close> returns.  Where there is no cache,
  \<^verbatim>\<open>addToSuggestionsCache\<close> leaves the module as it is.
\<close>

theorem suggestions_sorted_without_duplicates:
  "cache_tidy (module_after cs initial_module) \<and>
   tidy (fst (getSuggestions query userId forceRefresh now (module_after cs initial_module))) \<and>
   cache_tidy (addToSuggestionsCache type val (module_after cs initial_module)) \<and>
   (suggestionsCache m = None \<longrightarrow> addToSuggestionsCache type val m = m)"
proof -
  have t: "cache_tidy (module_after cs initial_module)"
    by (rule module_after_tidy [OF initial_module_tidy])
  moreover have "suggestionsCache m = None \<longrightarrow> addToSuggestionsCache type val m = m"
    by (simp add: addToSuggestionsCache_def)
  ultimately show ?thesis
    using getSuggestions_tidy [OF t] addToSuggestionsCache_tidy [OF t] by blast
qed

theorem suggestions_sorted_without_duplicates_witness:
  "suggestionsCache (module_after example_calls initial_module)
     = Some \<lparr>brands = [''Adidas'', ''Boss'', ''Nike''], subcategories = [''tee'']\<rparr> \<and>
   cache_tidy (module_after example_calls initial_module) \<and>
   suggestionsCache initial_module = None \<and>
   addToSuggestionsCache BRAND ''Zara'' initial_module = initial_module"
proof -
  have m: "module_after example_calls initial_module
      = \<lparr>suggestionsCache = Some \<lparr>brands = [''Adidas'', ''Boss'', ''Nike''],
            subcategories = [''tee'']\<rparr>, lastCacheTime = 1000\<rparr>"
    by (simp add: example_calls_def example_rows_def example_item_def initial_module_def
        addToSuggestionsCache_def getSuggestions_def fetch_suggestions_def unique_values_def
        Array_from_Set_def trim_def is_white_space_def Let_def)
  have n: "suggestionsCache initial_module = None"
    by (simp add: initial_module_def)
  from suggestions_sorted_without_duplicates
    [of example_calls "\<lambda>u. Throws" 7 False 0 BRAND "''Zara''" initial_module] n
  show ?thesis by (simp add: m)
qed

section \<open>Adding an item\<close>

text \<open>
  Claim C1.  An item is created with the count \<^verbatim>\<open>3\<close> in the field of wears so far, and
  the backend accepts both requests.  The item is inserted with \<^verbatim>\<open>times_worn = 3\<close>;
  then three wear events without a date are inserted for it, and the trigger adds 1 to
  the counter for each of them.  The counter ends at 6, not at 3; the three events
  have no date and the last worn date stays absent.
\<close>

theorem times_worn_seeded_twice:
  "fst (proceedWithSave parseFloat_NaN (NoFault, NoFault) (10, 20) 7
          (example_form\<lparr>item_times_worn := ''3''\<rparr>) [] empty_state)
     = Alert ''Success'' ''Item added successfully!'' \<and>
   map times_worn (clothing_items (fst (snd
       (proceedWithSave parseFloat_NaN (NoFault, NoFault) (10, 20) 7
          (example_form\<lparr>item_times_worn := ''3''\<rparr>) [] empty_state))))
     = [Some 6] \<and>
   map last_worn_date (clothing_items (fst (snd
       (proceedWithSave parseFloat_NaN (NoFault, NoFault) (10, 20) 7
          (example_form\<lparr>item_times_worn := ''3''\<rparr>) [] empty_state))))
     = [None] \<and>
   map date_worn (wear_history (fst (snd
       (proceedWithSave parseFloat_NaN (NoFault, NoFault) (10, 20) 7
          (example_form\<lparr>item_times_worn := ''3''\<rparr>) [] empty_state))))
     = [None, None, None] \<and>
   map clothing_item_id (wear_history (fst (snd
       (proceedWithSave parseFloat_NaN (NoFault, NoFault) (10, 20) 7
          (example_form\<lparr>item_times_worn := ''3''\<rparr>) [] empty_state))))
     = [1, 1, 1]"
  by (simp add: proceedWithSave_def prepare_clothingItemData_def
      supabase_insert_clothing_items_def supabase_insert_wear_history_def
      insert_clothing_items_def new_clothing_items_row_def insert_wear_history_def
      update_clothing_item_stats_def stats_after_insert_def policy_wear_history_def
      policy_clothing_items_def int4_plus_def int4_def add_suggestions_def
      setSuggestions_def or_null_def trim_def example_form_def empty_state_def empty_db_def
      initial_module_def parseFloat_NaN_def Let_def parseInt_def trimStart_def
      is_white_space_def is_radix_digit_def digit_value_def radix_value_def or_zero_def
      numeral_3_eq_3)

lemma proceedWithSave_not_positive:
  assumes "or_zero (parseInt (item_times_worn item)) = n" and "n \<le> 0"
    and "- 2147483648 \<le> n"
  shows "proceedWithSave parseFloat (NoFault, f2) nows uid item imageUrls (d, m, s)
           = (Alert ''Success'' ''Item added successfully!'',
              d\<lparr>clothing_items := clothing_items d @
                   [new_clothing_items_row (fst nows) (gen_random_uuid d)
                      (prepare_clothingItemData parseFloat uid item imageUrls)],
                gen_random_uuid := Suc (gen_random_uuid d)\<rparr>,
              add_suggestions item m, setSuggestions item s)"
  using assms
  by (simp add: proceedWithSave_def supabase_insert_clothing_items_def
      insert_clothing_items_def policy_clothing_items_def int4_plus_def int4_def Let_def
      prepare_clothingItemData_def)

text \<open>
  Claim C6, as amended.  A negative count is not refused.  When the backend accepts the
  request, saving an item whose count reads as the negative number \<open>n\<close> ends with the
  alert of success: the item is stored with \<^verbatim>\<open>times_worn = n\<close>, and no wear event is
  inserted.  This is what \<^verbatim>\<open>proceedWithSave\<close> does for all image URLs, and what
  \<^verbatim>\<open>handleSave\<close> does when the name and the category are filled in and no image is
  attached.
\<close>

theorem negative_count_is_stored:
  assumes "parseInt (item_times_worn item) = Some n" and "n < 0" and "- 2147483648 \<le> n"
  shows "\<exists>d'. proceedWithSave parseFloat (NoFault, f2) nows uid item imageUrls (d, m, s)
             = (Alert ''Success'' ''Item added successfully!'',
                d', add_suggestions item m, setSuggestions item s) \<and>
           clothing_items d' = clothing_items d @
             [new_clothing_items_row (fst nows) (gen_random_uuid d)
                (prepare_clothingItemData parseFloat uid item imageUrls)] \<and>
           times_worn (last (clothing_items d')) = Some n \<and>
           wear_history d' = wear_history d \<and>
           (trim (item_name item) \<noteq> [] \<and> item_category item \<noteq> [] \<and>
            item_images item = [] \<and> imageUrls = [] \<longrightarrow>
              handleSave P parseFloat (NoFault, f2) nows (Some uid) item w (d, m, s)
                = (Alerted (Alert ''Success'' ''Item added successfully!''), w,
                   d', add_suggestions item m, setSuggestions item s))"
proof -
  have "or_zero (parseInt (item_times_worn item)) = n" "n \<le> 0"
    using assms(1,2) by (simp_all add: or_zero_def)
  note eq = proceedWithSave_not_positive [OF this assms(3), of parseFloat f2 nows uid
      imageUrls d m s]
  define row where "row = new_clothing_items_row (fst nows) (gen_random_uuid d)
    (prepare_clothingItemData parseFloat uid item imageUrls)"
  define d' where "d' = d\<lparr>clothing_items := clothing_items d @ [row],
    gen_random_uuid := Suc (gen_random_uuid d)\<rparr>"
  have p: "proceedWithSave parseFloat (NoFault, f2) nows uid item imageUrls (d, m, s)
      = (Alert ''Success'' ''Item added successfully!'',
         d', add_suggestions item m, setSuggestions item s)"
    using eq by (simp add: d'_def row_def)
  have c: "clothing_items d' = clothing_items d @ [row]" "wear_history d' = wear_history d"
    by (simp_all add: d'_def)
  have tw: "times_worn (last (clothing_items d')) = Some n"
    using assms(1)
    by (simp add: c row_def new_clothing_items_row_def prepare_clothingItemData_def or_zero_def)
  have h: "handleSave P parseFloat (NoFault, f2) nows (Some uid) item w (d, m, s)
      = (Alerted (Alert ''Success'' ''Item added successfully!''), w,
         d', add_suggestions item m, setSuggestions item s)"
    if "trim (item_name item) \<noteq> [] \<and> item_category item \<noteq> [] \<and>
        item_images item = [] \<and> imageUrls = []"
    using that p by (simp add: handleSave_def)
  from p c tw h show ?thesis
    unfolding row_def by blast
qed

theorem negative_count_is_stored_witness:
  "parseInt (item_times_worn (example_form\<lparr>item_times_worn := ''-3''\<rparr>)) = Some (- 3) \<and>
   trim (item_name (example_form\<lparr>item_times_worn := ''-3''\<rparr>)) \<noteq> [] \<and>
   item_category (example_form\<lparr>item_times_worn := ''-3''\<rparr>) \<noteq> [] \<and>
   item_images (example_form\<lparr>item_times_worn := ''-3''\<rparr>) = [] \<and>
   (\<exists>d'. handleSave example_platform parseFloat_NaN (NoFault, NoFault) (10, 20) (Some 7)
            (example_form\<lparr>item_times_worn := ''-3''\<rparr>) [] empty_state
          = (Alerted (Alert ''Success'' ''Item added successfully!''), [], d',
             initial_module, \<lparr>brands = [], subcategories = []\<rparr>) \<and>
        times_worn (last (clothing_items d')) = Some (- 3) \<and>
        wear_history d' = [])"
proof -
  let ?item = "example_form\<lparr>item_times_worn := ''-3''\<rparr>"
  have a: "parseInt (item_times_worn ?item) = Some (- 3)" "(- 3 :: int) < 0"
    "- 2147483648 \<le> (- 3 :: int)"
    by (simp_all add: parseInt_def trimStart_def is_white_space_def is_radix_digit_def
        digit_value_def radix_value_def or_zero_def example_form_def)
  have v: "trim (item_name ?item) \<noteq> []" "item_category ?item \<noteq> []" "item_images ?item = []"
    by (simp_all add: example_form_def trim_def is_white_space_def)
  have b: "add_suggestions ?item initial_module = initial_module"
    "setSuggestions ?item \<lparr>brands = [], subcategories = []\<rparr> = \<lparr>brands = [], subcategories = []\<rparr>"
    by (simp_all add: add_suggestions_def setSuggestions_def example_form_def trim_def
        is_white_space_def)
  from negative_count_is_stored [OF a, of parseFloat_NaN NoFault "(10, 20)" 7 "[]"
      empty_db initial_module "\<lparr>brands = [], subcategories = []\<rparr>" example_platform "[]"] a v b
  show ?thesis
    by (auto simp: empty_state_def empty_db_def)
qed

theorem negative_count_counterexample:
  "fst (handleSave example_platform parseFloat_NaN (NoFault, NoFault) (10, 20) (Some 7)
          (example_form\<lparr>item_times_worn := ''-3''\<rparr>) [] empty_state)
     = Alerted (Alert ''Success'' ''Item added successfully!'') \<and>
   map times_worn (clothing_items (fst (snd (snd
       (handleSave example_platform parseFloat_NaN (NoFault, NoFault) (10, 20) (Some 7)
          (example_form\<lparr>item_times_worn := ''-3''\<rparr>) [] empty_state)))))
     = [Some (- 3)] \<and>
   wear_history (fst (snd (snd
       (handleSave example_platform parseFloat_NaN (NoFault, NoFault) (10, 20) (Some 7)
          (example_form\<lparr>item_times_worn := ''-3''\<rparr>) [] empty_state))))
     = []"
  by (simp add: handleSave_def proceedWithSave_def prepare_clothingItemData_def
      supabase_insert_clothing_items_def insert_clothing_items_def
      new_clothing_items_row_def add_suggestions_def setSuggestions_def or_null_def trim_def
      example_form_def empty_state_def empty_db_def initial_module_def Let_def parseInt_def
      trimStart_def is_white_space_def is_radix_digit_def digit_value_def radix_value_def
      or_zero_def policy_clothing_items_def
      int4_plus_def int4_def)

section \<open>Uploading the images of an item\<close>



















end
